theory Spec2Isabelle
  imports Complex_Main "HOL-Library.Stream"
begin

section \<open>SaaS Tower Defense: the simulation core\<close>

text \<open>
  A shallow embedding of \<^verbatim>\<open>js/customer.js\<close>, \<^verbatim>\<open>js/tower.js\<close>,
  \<^verbatim>\<open>js/metrics.js\<close> and the state-changing part of \<^verbatim>\<open>js/game.js\<close>.

  Conventions of the embedding.
  \<^item> A JavaScript number is a \<^typ>\<open>real\<close>; counters that the code only ever
    increments from 0 or 1 (\<^verbatim>\<open>lapCount\<close>, \<^verbatim>\<open>level\<close>, \<^verbatim>\<open>frameCount\<close>, the id
    counters, \<^verbatim>\<open>maxTargets\<close>) are \<^typ>\<open>nat\<close>, and \<^verbatim>\<open>attackCooldown\<close>, which
    only holds 0 and results of \<^verbatim>\<open>Math.round\<close>, is an \<^typ>\<open>int\<close>.
  \<^item> The string-valued enumerations of the source (\<^verbatim>\<open>'SALES'\<close>, \<^verbatim>\<open>'ACTIVE'\<close>, ...)
    stay strings, so that an unknown type or status takes the same branch as in the code.
  \<^item> \<^verbatim>\<open>Math.random()\<close> reads the head of a stream of draws that is threaded through
    every function that draws; each function returns the rest of the stream.
  \<^item> Customers and towers are objects shared by reference. An object lives in an object
    table (a list), and a reference is its index there; \<^verbatim>\<open>game.customers\<close>,
    \<^verbatim>\<open>game.towers\<close> and \<^verbatim>\<open>tower.currentTargets\<close> are lists of references.
  \<^item> The attributes \<^verbatim>\<open>size\<close> and \<^verbatim>\<open>color\<close>, which only the renderer reads, and the
    calls into the DOM are left out; \<^verbatim>\<open>updateVisuals\<close> therefore has no counterpart.
\<close>

subsection \<open>Numbers and random draws\<close>

definition Math_round :: "real \<Rightarrow> int" where
  "Math_round v = \<lfloor>v + 1 / 2\<rfloor>"

type_synonym rand = "real stream"

record point =
  pos_x :: real
  pos_y :: real

subsection \<open>The path (class InfinityPath of game.js)\<close>

record infinityPath =
  centerX :: real
  centerY :: real
  radiusX :: real
  radiusY :: real

definition getPointAtPosition :: "infinityPath \<Rightarrow> real \<Rightarrow> point" where
  "getPointAtPosition p t =
     (let angle = t * pi * 2 in
      \<lparr>pos_x = centerX p + radiusX p * sin angle,
       pos_y = centerY p + radiusY p * sin angle * cos angle\<rparr>)"

subsection \<open>Customer (customer.js)\<close>

record customer =
  cid :: string
  ctype :: string
  status :: string
  position :: point
  health :: real
  spend :: real
  trust :: real
  lapCount :: nat
  pathPosition :: real
  movementSpeed :: real
  isOnTrack :: bool
  targetPoint :: "point option"
  approachSpeed :: real
  engaged :: bool

definition calculateInitialSpend :: "string \<Rightarrow> rand \<Rightarrow> real \<times> rand" where
  "calculateInitialSpend ty r =
     (if ty = ''SMALL'' then (5000 + shd r * 5000, stl r)
      else if ty = ''MEDIUM'' then (20000 + shd r * 30000, stl r)
      else if ty = ''ENTERPRISE'' then (100000 + shd r * 400000, stl r)
      else (10000, r))"

definition calculateMovementSpeed :: "string \<Rightarrow> rand \<Rightarrow> real \<times> rand" where
  "calculateMovementSpeed ty r =
     (if ty = ''SMALL'' then (0.001 + shd r * 0.0005, stl r)
      else if ty = ''MEDIUM'' then (0.0008 + shd r * 0.0003, stl r)
      else if ty = ''ENTERPRISE'' then (0.0005 + shd r * 0.0002, stl r)
      else (0.0008, r))"

text \<open>The constructor. A missing position argument (\<open>None\<close>) becomes the origin.\<close>

definition Customer_new :: "string \<Rightarrow> string \<Rightarrow> point option \<Rightarrow> rand \<Rightarrow> customer \<times> rand" where
  "Customer_new i ty pos r =
     (let (sp, r1) = calculateInitialSpend ty r;
          (ms, r2) = calculateMovementSpeed ty r1
      in (\<lparr>cid = i, ctype = ty, status = ''PROSPECT'',
           position = (case pos of None \<Rightarrow> \<lparr>pos_x = 0, pos_y = 0\<rparr> | Some p \<Rightarrow> p),
           health = 100, spend = sp, trust = 50,
           lapCount = 0, pathPosition = 0, movementSpeed = ms,
           isOnTrack = False, targetPoint = None,
           approachSpeed = 0.5 + shd r2 * 0.5,
           engaged = False\<rparr>, stl r2))"

definition decideRenewal :: "customer \<Rightarrow> rand \<Rightarrow> customer \<times> rand" where
  "decideRenewal c r =
     (let churnProbability = (100 - trust c) * 0.01 * (100 - health c) * 0.01 in
      if shd r < churnProbability then (c\<lparr>status := ''CHURNED''\<rparr>, stl r)
      else if shd (stl r) < 0.2
        then (c\<lparr>spend := spend c * (1 + shd (stl (stl r)) * 0.1)\<rparr>, stl (stl (stl r)))
        else (c, stl (stl r)))"

definition onLapComplete :: "customer \<Rightarrow> rand \<Rightarrow> customer \<times> rand" where
  "onLapComplete c r =
     (if status c = ''PROSPECT'' then (c, r)
      else
        let (c1, r1) = (if status c = ''ACTIVE'' then decideRenewal c r else (c, r));
            c2 = c1\<lparr>trust := max 0 (trust c1 - 5)\<rparr>;
            c3 = c2\<lparr>health := max 0 (health c2 - 5)\<rparr>
        in (c3, r1))"

definition moveTowardsTrack :: "infinityPath \<Rightarrow> customer \<Rightarrow> rand \<Rightarrow> customer \<times> rand" where
  "moveTowardsTrack p c r =
     (let (tp, c1, r1) =
            (case targetPoint c of
               None \<Rightarrow>
                 (let randomPosition = shd r;
                      tp = getPointAtPosition p randomPosition
                  in (tp, c\<lparr>pathPosition := randomPosition, targetPoint := Some tp\<rparr>, stl r))
             | Some tp \<Rightarrow> (tp, c, r));
          dx = pos_x tp - pos_x (position c1);
          dy = pos_y tp - pos_y (position c1);
          distance = sqrt (dx * dx + dy * dy)
      in if distance > 5
         then (c1\<lparr>position := \<lparr>pos_x = pos_x (position c1) + (dx / distance) * approachSpeed c1,
                                pos_y = pos_y (position c1) + (dy / distance) * approachSpeed c1\<rparr>\<rparr>, r1)
         else (c1\<lparr>isOnTrack := True, position := tp\<rparr>, r1))"

text \<open>
  \<^verbatim>\<open>wanderOnEdge\<close> reads the canvas size from \<^verbatim>\<open>game.ui.canvas\<close>; the model takes
  the two numbers. The four clamping tests run in the source's order, each on the
  coordinate the earlier ones left.
\<close>

definition wanderOnEdge :: "real \<Rightarrow> real \<Rightarrow> customer \<Rightarrow> rand \<Rightarrow> customer \<times> rand" where
  "wanderOnEdge canvasWidth canvasHeight c r =
     (let wanderSpeed = 0.5;
          x1 = pos_x (position c) + (shd r - 0.5) * wanderSpeed;
          y1 = pos_y (position c) + (shd (stl r) - 0.5) * wanderSpeed;
          x2 = (if x1 < 0 then 20 else x1);
          x3 = (if x2 > canvasWidth then canvasWidth - 20 else x2);
          y2 = (if y1 < 0 then 20 else y1);
          y3 = (if y2 > canvasHeight then canvasHeight - 20 else y2)
      in (c\<lparr>position := \<lparr>pos_x = x3, pos_y = y3\<rparr>\<rparr>, stl (stl r)))"

definition move :: "infinityPath \<Rightarrow> real \<Rightarrow> real \<Rightarrow> customer \<Rightarrow> rand \<Rightarrow> customer \<times> rand" where
  "move p canvasWidth canvasHeight c r =
     (if \<not> isOnTrack c then
        (if engaged c then moveTowardsTrack p c r
         else wanderOnEdge canvasWidth canvasHeight c r)
      else
        let c1 = c\<lparr>pathPosition := pathPosition c + movementSpeed c\<rparr>;
            (c2, r2) =
              (if pathPosition c1 \<ge> 1
               then onLapComplete (c1\<lparr>pathPosition := 0, lapCount := lapCount c1 + 1\<rparr>) r
               else (c1, r))
        in (c2\<lparr>position := getPointAtPosition p (pathPosition c2)\<rparr>, r2))"

definition convert :: "customer \<Rightarrow> customer" where
  "convert c = (if status c = ''PROSPECT'' then c\<lparr>status := ''ACTIVE''\<rparr> else c)"

definition increaseHealth :: "customer \<Rightarrow> real \<Rightarrow> customer" where
  "increaseHealth c amount = c\<lparr>health := min 100 (health c + amount)\<rparr>"

definition increaseTrust :: "customer \<Rightarrow> real \<Rightarrow> customer" where
  "increaseTrust c amount = c\<lparr>trust := min 100 (trust c + amount)\<rparr>"

definition increaseSpend :: "customer \<Rightarrow> real \<Rightarrow> customer" where
  "increaseSpend c percentage = c\<lparr>spend := spend c * (1 + percentage)\<rparr>"

definition recoverToGold :: "customer \<Rightarrow> customer" where
  "recoverToGold c =
     (if status c = ''CHURNED'' then c\<lparr>status := ''GOLD'', health := 100, trust := 100\<rparr> else c)"

text \<open>
  \<^verbatim>\<open>Customer.spawnAtMapEdge\<close>: a random edge, a random place on it, then the constructor.
  In \<^verbatim>\<open>type || 'SMALL'\<close> the empty string is the one string that counts as missing. The
  test for an undefined canvas size has no counterpart: the size is a pair of numbers.
\<close>

definition spawnAtMapEdge :: "real \<Rightarrow> real \<Rightarrow> string \<Rightarrow> string \<Rightarrow> rand \<Rightarrow> customer \<times> rand" where
  "spawnAtMapEdge canvasWidth canvasHeight i ty r =
     (let edge = \<lfloor>shd r * 4\<rfloor>;
          r1 = stl r;
          (pos, r2) =
            (if edge = 0 then (\<lparr>pos_x = shd r1 * canvasWidth, pos_y = - 20\<rparr>, stl r1)
             else if edge = 1 then (\<lparr>pos_x = canvasWidth + 20, pos_y = shd r1 * canvasHeight\<rparr>, stl r1)
             else if edge = 2 then (\<lparr>pos_x = shd r1 * canvasWidth, pos_y = canvasHeight + 20\<rparr>, stl r1)
             else if edge = 3 then (\<lparr>pos_x = - 20, pos_y = shd r1 * canvasHeight\<rparr>, stl r1)
             else (\<lparr>pos_x = 0, pos_y = 0\<rparr>, r1));
          (c, r3) = Customer_new i (if ty = [] then ''SMALL'' else ty) (Some pos) r2
      in (c\<lparr>isOnTrack := False\<rparr>, r3))"

subsection \<open>Tower (tower.js)\<close>

record tower =
  tid :: string
  ttype :: string
  tposition :: point
  level :: nat
  trange :: real
  attackSpeed :: real
  maxTargets :: nat
  maxValueManaged :: real
  currentTargets :: "nat list"
  targetingStrategy :: string
  burnoutLevel :: real
  attackCooldown :: int

definition getBaseRange :: "string \<Rightarrow> real" where
  "getBaseRange ty = (if ty = ''SALES'' then 100 else 80)"

definition getBaseAttackSpeed :: "string \<Rightarrow> real" where
  "getBaseAttackSpeed ty = (if ty = ''SALES'' then 60 else 30)"

definition getBaseMaxTargets :: "string \<Rightarrow> nat" where
  "getBaseMaxTargets ty = (if ty = ''SALES'' then 3 else 5)"

definition getBaseMaxValueManaged :: "string \<Rightarrow> real" where
  "getBaseMaxValueManaged ty = (if ty = ''SALES'' then 1000000 else 2000000)"

definition getCost :: "string \<Rightarrow> real" where
  "getCost ty = (if ty = ''SALES'' then 75000 else 60000)"

definition Tower_new :: "string \<Rightarrow> string \<Rightarrow> point \<Rightarrow> tower" where
  "Tower_new i ty pos =
     \<lparr>tid = i, ttype = ty, tposition = pos, level = 1,
      trange = getBaseRange ty,
      attackSpeed = getBaseAttackSpeed ty,
      maxTargets = getBaseMaxTargets ty,
      maxValueManaged = getBaseMaxValueManaged ty,
      currentTargets = [],
      targetingStrategy = ''DEFAULT'',
      burnoutLevel = 0,
      attackCooldown = 0\<rparr>"

definition getUpgradeCost :: "tower \<Rightarrow> int" where
  "getUpgradeCost t = Math_round (getCost (ttype t) * 0.75 * real (level t))"

text \<open>The loop \<^verbatim>\<open>for (let i = 1; i < this.level; i++) sum += ...\<close>.\<close>

definition getUpgradeCostSum :: "tower \<Rightarrow> int" where
  "getUpgradeCostSum t =
     (\<Sum>i\<leftarrow>[1..<level t]. Math_round (getCost (ttype t) * 0.75 * real i))"

definition getSellValue :: "tower \<Rightarrow> int" where
  "getSellValue t =
     (let baseCost = getCost (ttype t);
          totalInvested = baseCost + real_of_int (getUpgradeCostSum t)
      in Math_round (totalInvested * 0.7))"

definition Tower_upgrade :: "tower \<Rightarrow> tower" where
  "Tower_upgrade t =
     (let l = level t + 1 in
      t\<lparr>level := l,
        trange := getBaseRange (ttype t) * (1 + 0.1 * (real l - 1)),
        attackSpeed := max 10 (getBaseAttackSpeed (ttype t) * (1 - 0.05 * (real l - 1))),
        maxTargets := getBaseMaxTargets (ttype t) + nat \<lfloor>(real l - 1) / 2\<rfloor>,
        maxValueManaged := getBaseMaxValueManaged (ttype t) * (1 + 0.2 * (real l - 1))\<rparr>)"

definition isInRange :: "tower \<Rightarrow> customer \<Rightarrow> bool" where
  "isInRange t c =
     (let dx = pos_x (tposition t) - pos_x (position c);
          dy = pos_y (tposition t) - pos_y (position c);
          distance = sqrt (dx * dx + dy * dy)
      in distance \<le> trange t)"

text \<open>
  From here on the functions that follow a customer reference take the customer object
  table \<open>cs\<close>; \<open>cs ! c\<close> is the object behind reference \<open>c\<close>.
\<close>

definition getCurrentManagedValue :: "customer list \<Rightarrow> tower \<Rightarrow> real" where
  "getCurrentManagedValue cs t = foldl (\<lambda>sum c. sum + spend (cs ! c)) 0 (currentTargets t)"

definition canHandleTarget :: "customer list \<Rightarrow> tower \<Rightarrow> nat \<Rightarrow> bool" where
  "canHandleTarget cs t c =
     (if length (currentTargets t) \<ge> maxTargets t then False
      else
        let potentialValue = getCurrentManagedValue cs t + spend (cs ! c) in
        if potentialValue > maxValueManaged t then False else True)"

definition filterTargetsByStrategy :: "customer list \<Rightarrow> tower \<Rightarrow> nat list \<Rightarrow> nat list" where
  "filterTargetsByStrategy cs t customers =
     (let targets = filter (\<lambda>c. isInRange t (cs ! c)) customers;
          strategy = targetingStrategy t
      in
      if ttype t = ''SALES'' then
        (if strategy = ''PROSPECTS'' then filter (\<lambda>c. status (cs ! c) = ''PROSPECT'') targets
         else if strategy = ''UPSELL'' then filter (\<lambda>c. status (cs ! c) = ''ACTIVE'') targets
         else if strategy = ''WINBACK'' then filter (\<lambda>c. status (cs ! c) = ''CHURNED'') targets
         else if strategy = ''ENTERPRISE'' then filter (\<lambda>c. ctype (cs ! c) = ''ENTERPRISE'') targets
         else if strategy = ''SMB''
           then filter (\<lambda>c. ctype (cs ! c) = ''SMALL'' \<or> ctype (cs ! c) = ''MEDIUM'') targets
         else targets)
      else if ttype t = ''CSM'' then
        (if strategy = ''RED''
           then filter (\<lambda>c. status (cs ! c) = ''ACTIVE'' \<and> health (cs ! c) \<le> 25) targets
         else if strategy = ''YELLOW''
           then filter (\<lambda>c. status (cs ! c) = ''ACTIVE'' \<and> health (cs ! c) > 25
                              \<and> health (cs ! c) \<le> 75) targets
         else if strategy = ''GREEN''
           then filter (\<lambda>c. status (cs ! c) = ''ACTIVE'' \<and> health (cs ! c) > 75) targets
         else filter (\<lambda>c. status (cs ! c) = ''ACTIVE'') targets)
      else targets)"

text \<open>
  \<^verbatim>\<open>Array.prototype.sort\<close> is stable; the comparator \<^verbatim>\<open>b.spend - a.spend\<close> orders by
  descending spend and \<^verbatim>\<open>a.health - b.health\<close> by ascending health. \<^const>\<open>sort_key\<close> is
  a stable insertion sort.
\<close>

definition getPriorityTargets :: "customer list \<Rightarrow> tower \<Rightarrow> nat list \<Rightarrow> nat list" where
  "getPriorityTargets cs t filteredCustomers =
     (if ttype t = ''SALES'' then sort_key (\<lambda>c. - spend (cs ! c)) filteredCustomers
      else if ttype t = ''CSM'' then sort_key (\<lambda>c. health (cs ! c)) filteredCustomers
      else filteredCustomers)"

text \<open>The loop of \<^verbatim>\<open>updateTargeting\<close> that admits new targets, with its \<^verbatim>\<open>break\<close>.\<close>

fun addTargets :: "customer list \<Rightarrow> tower \<Rightarrow> nat list \<Rightarrow> tower" where
  "addTargets cs t [] = t"
| "addTargets cs t (c # rest) =
     (if c \<notin> set (currentTargets t) \<and> canHandleTarget cs t c then
        (let t1 = t\<lparr>currentTargets := currentTargets t @ [c]\<rparr> in
         if length (currentTargets t1) \<ge> maxTargets t1 then t1
         else addTargets cs t1 rest)
      else addTargets cs t rest)"

definition updateTargeting :: "customer list \<Rightarrow> tower \<Rightarrow> nat list \<Rightarrow> tower" where
  "updateTargeting cs t customers =
     (let t1 = (if length (currentTargets t) = 0
                then t\<lparr>burnoutLevel := max 0 (burnoutLevel t - 0.5)\<rparr> else t);
          t2 = t1\<lparr>currentTargets :=
                    filter (\<lambda>c. isInRange t1 (cs ! c) \<and> c \<in> set customers) (currentTargets t1)\<rparr>
      in
      if length (currentTargets t2) \<ge> maxTargets t2 then t2
      else
        let filteredCustomers = filterTargetsByStrategy cs t2 customers;
            priorityTargets = getPriorityTargets cs t2 filteredCustomers;
            t3 = addTargets cs t2 priorityTargets
        in
        if length (currentTargets t3) > 0 then
          (let burnoutRate = real (length (currentTargets t3)) / real (maxTargets t3) * 0.1
           in t3\<lparr>burnoutLevel := min 100 (burnoutLevel t3 + burnoutRate)\<rparr>)
        else t3)"

text \<open>
  \<^verbatim>\<open>attackTargets\<close>: what one attack does to one target, for a SALES and for a CSM
  tower. A draw is taken only in the branches that call \<^verbatim>\<open>Math.random()\<close>.
\<close>

definition attackSales :: "tower \<Rightarrow> customer \<Rightarrow> rand \<Rightarrow> customer \<times> rand" where
  "attackSales t c0 r =
     (let c = c0\<lparr>engaged := True\<rparr> in
      if status c = ''PROSPECT'' then
        (let conversionChance = 0.01 * (1 - burnoutLevel t / 100) in
         if shd r < conversionChance then (convert c, stl r) else (c, stl r))
      else if status c = ''ACTIVE'' then
        (let upsellChance = 0.005 * (1 - burnoutLevel t / 100) in
         if shd r < upsellChance then (increaseSpend c 0.05, stl r) else (c, stl r))
      else if status c = ''CHURNED'' then
        (let winbackChance = 0.002 * (1 - burnoutLevel t / 100) in
         if shd r < winbackChance then (recoverToGold c, stl r) else (c, stl r))
      else (c, r))"

definition attackCSM :: "tower \<Rightarrow> customer \<Rightarrow> rand \<Rightarrow> customer \<times> rand" where
  "attackCSM t c0 r =
     (let c = c0\<lparr>engaged := True\<rparr> in
      if status c = ''ACTIVE'' then
        (let healthBoost = 1 * (1 - burnoutLevel t / 100);
             trustBoost = 0.5 * (1 - burnoutLevel t / 100)
         in (increaseTrust (increaseHealth c healthBoost) trustBoost, r))
      else (c, r))"

text \<open>
  \<^verbatim>\<open>for (const customer of refs) { ... }\<close> with a body that changes the customer it
  visits and may draw: the loops of \<^verbatim>\<open>attackTargets\<close>, \<^verbatim>\<open>Game.update\<close> and
  \<^verbatim>\<open>completeProductUpgrade\<close>.
\<close>

fun forEachCustomer :: "(customer \<Rightarrow> rand \<Rightarrow> customer \<times> rand) \<Rightarrow> nat list \<Rightarrow> customer list \<Rightarrow> rand
                    \<Rightarrow> customer list \<times> rand" where
  "forEachCustomer f [] cs r = (cs, r)"
| "forEachCustomer f (c # rest) cs r =
     (let (c', r') = f (cs ! c) r in forEachCustomer f rest (cs[c := c']) r')"

definition attackTargets :: "tower \<Rightarrow> customer list \<Rightarrow> rand \<Rightarrow> customer list \<times> rand" where
  "attackTargets t cs r =
     (if ttype t = ''SALES'' then forEachCustomer (attackSales t) (currentTargets t) cs r
      else if ttype t = ''CSM'' then forEachCustomer (attackCSM t) (currentTargets t) cs r
      else (cs, r))"

text \<open>\<^verbatim>\<open>Tower.update\<close>: the tower, the customer objects and the draws after one call.\<close>

definition Tower_update :: "tower \<Rightarrow> customer list \<Rightarrow> rand \<Rightarrow> tower \<times> customer list \<times> rand" where
  "Tower_update t cs r =
     (if length (currentTargets t) = 0 then (t, cs, r)
      else if attackCooldown t > 0 then (t\<lparr>attackCooldown := attackCooldown t - 1\<rparr>, cs, r)
      else
        let (cs', r') = attackTargets t cs r;
            burnoutFactor = 1 + burnoutLevel t / 100
        in (t\<lparr>attackCooldown := Math_round (attackSpeed t * burnoutFactor)\<rparr>, cs', r'))"

subsection \<open>MetricsCalculator (metrics.js)\<close>

text \<open>
  A history snapshot is the list of \<^verbatim>\<open>{id, spend}\<close> pairs of the active and gold
  customers. The history arrays \<^verbatim>\<open>churn\<close>, \<^verbatim>\<open>acquisitions\<close> and \<^verbatim>\<open>expansions\<close> are
  never written and are left out.
\<close>

record metricsValues =
  arr :: real
  mrr :: real
  nrr :: real
  grr :: real
  cac :: real
  ltv :: real
  customerCount :: nat
  churnRate :: real

record metricsCalculator =
  history_arr :: "real list"
  history_customers :: "(string \<times> real) list list"
  currentMetrics :: metricsValues
  totalCAC :: real
  totalCustomersAcquired :: nat

definition MetricsCalculator_new :: metricsCalculator where
  "MetricsCalculator_new =
     \<lparr>history_arr = [], history_customers = [],
      currentMetrics = \<lparr>arr = 0, mrr = 0, nrr = 0, grr = 0, cac = 0, ltv = 0,
                        customerCount = 0, churnRate = 0\<rparr>,
      totalCAC = 0, totalCustomersAcquired = 0\<rparr>"

definition isActiveOrGold :: "customer \<Rightarrow> bool" where
  "isActiveOrGold c = (status c = ''ACTIVE'' \<or> status c = ''GOLD'')"

definition snapshotSpend :: "(string \<times> real) list \<Rightarrow> real" where
  "snapshotSpend snap = foldl (\<lambda>sum c. sum + snd c) 0 snap"

text \<open>The first part of \<^verbatim>\<open>calculateMetrics\<close>: ARR, MRR and the history.\<close>

definition recordHistory :: "metricsCalculator \<Rightarrow> customer list \<Rightarrow> metricsCalculator" where
  "recordHistory m activeCustomers =
     (let currentARR = foldl (\<lambda>sum c. sum + spend c) 0 activeCustomers;
          m1 = m\<lparr>currentMetrics := (currentMetrics m)\<lparr>arr := currentARR, mrr := currentARR / 12\<rparr>\<rparr>;
          snap = map (\<lambda>c. (cid c, spend c)) activeCustomers
      in
      if length (history_arr m1) = 0 then
        m1\<lparr>history_arr := history_arr m1 @ [currentARR],
           history_customers := history_customers m1 @ [snap]\<rparr>
      else if length (history_arr m1) > 0 \<and> last (history_arr m1) \<noteq> currentARR then
        (let m2 = m1\<lparr>history_arr := history_arr m1 @ [currentARR],
                     history_customers := history_customers m1 @ [snap]\<rparr>
         in if length (history_arr m2) > 12
            then m2\<lparr>history_arr := tl (history_arr m2),
                    history_customers := tl (history_customers m2)\<rparr>
            else m2)
      else m1)"

text \<open>The second part: NRR and GRR from the last two snapshots.\<close>

definition retention :: "metricsCalculator \<Rightarrow> metricsCalculator" where
  "retention m =
     (let h = history_customers m in
      if length h \<ge> 2 then
        (let prevCustomers = h ! (length h - 2);
             currCustomers = h ! (length h - 1);
             retainedCustomerIds =
               filter (\<lambda>i. list_ex (\<lambda>cc. fst cc = i) currCustomers) (map fst prevCustomers);
             prevRetainedSpend =
               snapshotSpend (filter (\<lambda>c. fst c \<in> set retainedCustomerIds) prevCustomers);
             currRetainedSpend =
               snapshotSpend (filter (\<lambda>c. fst c \<in> set retainedCustomerIds) currCustomers);
             totalPrevSpend = snapshotSpend prevCustomers
         in
         if totalPrevSpend > 0 then
           m\<lparr>currentMetrics := (currentMetrics m)
                \<lparr>grr := min (prevRetainedSpend / totalPrevSpend) 1,
                 nrr := currRetainedSpend / totalPrevSpend\<rparr>\<rparr>
         else m)
      else m)"

text \<open>The third part: customer count, churn rate, CAC and LTV.\<close>

definition countsAndCosts :: "metricsCalculator \<Rightarrow> customer list \<Rightarrow> real \<Rightarrow> metricsCalculator" where
  "countsAndCosts m activeCustomers spentOnTowers =
     (let newCustomers = filter (\<lambda>c. lapCount c = 0) activeCustomers;
          h = history_customers m;
          m1 = m\<lparr>currentMetrics := (currentMetrics m)\<lparr>customerCount := length activeCustomers\<rparr>\<rparr>;
          m2 = (if length h \<ge> 2 then
                  (let prevCount = length (h ! (length h - 2));
                       churnedCount = int (length (h ! (length h - 2))) - int (length (h ! (length h - 1)))
                   in m1\<lparr>currentMetrics := (currentMetrics m1)
                          \<lparr>churnRate := (if prevCount > 0
                                         then real_of_int (max 0 churnedCount) / real prevCount
                                         else 0)\<rparr>\<rparr>)
                else m1);
          m3 = m2\<lparr>totalCustomersAcquired := totalCustomersAcquired m2 + length newCustomers,
                  totalCAC := spentOnTowers\<rparr>
      in
      if totalCustomersAcquired m3 > 0 then
        (let cm = currentMetrics m3;
             cm1 = cm\<lparr>cac := totalCAC m3 / real (totalCustomersAcquired m3)\<rparr>;
             avgCustomerValue = arr cm1 / real (max 1 (length activeCustomers));
             avgLifespanYears = (if churnRate cm1 > 0 then 1 / churnRate cm1 else 5)
         in m3\<lparr>currentMetrics := cm1\<lparr>ltv := avgCustomerValue * avgLifespanYears\<rparr>\<rparr>)
      else m3)"

definition calculateMetrics :: "metricsCalculator \<Rightarrow> customer list \<Rightarrow> real \<Rightarrow> metricsCalculator" where
  "calculateMetrics m customers spentOnTowers =
     (let activeCustomers = filter isActiveOrGold customers
      in countsAndCosts (retention (recordHistory m activeCustomers)) activeCustomers spentOnTowers)"

subsection \<open>Game (game.js)\<close>

text \<open>
  The state of the controller. \<open>customerObjs\<close> and \<open>towerObjs\<close> are the object tables;
  \<open>customers\<close> and \<open>towers\<close> are the arrays of the source, holding references.
  \<open>canvasWidth\<close> and \<open>canvasHeight\<close> stand for \<^verbatim>\<open>ui.canvas.width\<close> and
  \<^verbatim>\<open>ui.canvas.height\<close>, and \<open>rng\<close> is the stream of draws still to come. The fields
  that are constant after the constructor (\<^verbatim>\<open>prospectSpawnRate\<close>, \<^verbatim>\<open>customerTypes\<close>,
  \<^verbatim>\<open>typeWeights\<close>) are constants below.
\<close>

record game =
  path :: infinityPath
  customers :: "nat list"
  customerObjs :: "customer list"
  towers :: "nat list"
  towerObjs :: "tower list"
  metrics :: metricsCalculator
  capital :: real
  towerIdCounter :: nat
  customerIdCounter :: nat
  frameCount :: nat
  running :: bool
  gameOver :: bool
  productUpgradeActive :: bool
  productUpgradeProgress :: real
  productUpgradeCost :: real
  canvasWidth :: real
  canvasHeight :: real
  rng :: rand

definition prospectSpawnRate :: real where
  "prospectSpawnRate = 0.05"

text \<open>The decimal numeral of a counter, for \<^verbatim>\<open>`customer_${n}`\<close> and \<^verbatim>\<open>`tower_${n}`\<close>.\<close>

fun string_of_nat :: "nat \<Rightarrow> string" where
  "string_of_nat n =
     (if n < 10 then [char_of (48 + n)]
      else string_of_nat (n div 10) @ [char_of (48 + n mod 10)])"

declare string_of_nat.simps [simp del]

text \<open>
  \<^verbatim>\<open>getRandomCustomerType\<close>: the loop over the weights 0.6, 0.3, 0.1 of the types
  SMALL, MEDIUM, ENTERPRISE, unrolled, with the running sum written out.
\<close>

definition getRandomCustomerType :: "rand \<Rightarrow> string \<times> rand" where
  "getRandomCustomerType r =
     (let rand = shd r in
      (if rand < 0.6 then ''SMALL''
       else if rand < 0.6 + 0.3 then ''MEDIUM''
       else if rand < 0.6 + 0.3 + 0.1 then ''ENTERPRISE''
       else ''SMALL'', stl r))"

definition spawnProspect :: "game \<Rightarrow> game" where
  "spawnProspect g =
     (let (ty, r1) = getRandomCustomerType (rng g);
          (c, r2) = spawnAtMapEdge (canvasWidth g) (canvasHeight g)
                      (''customer_'' @ string_of_nat (customerIdCounter g)) ty r1
      in g\<lparr>customerIdCounter := customerIdCounter g + 1,
           customerObjs := customerObjs g @ [c],
           customers := customers g @ [length (customerObjs g)],
           rng := r2\<rparr>)"

primrec spawnInitialProspects :: "nat \<Rightarrow> game \<Rightarrow> game" where
  "spawnInitialProspects 0 g = g"
| "spawnInitialProspects (Suc n) g = spawnInitialProspects n (spawnProspect g)"

text \<open>
  The constructor: its field assignments with \<^verbatim>\<open>createPath\<close> (\<open>Game_fields\<close>), then
  the rest of \<^verbatim>\<open>init\<close>, which spawns ten prospects and starts the loop. The arguments
  are the canvas size and the stream of draws.
\<close>

definition Game_fields :: "real \<Rightarrow> real \<Rightarrow> rand \<Rightarrow> game" where
  "Game_fields w h r =
     \<lparr>path = \<lparr>centerX = w / 2, centerY = h / 2, radiusX = w * 0.4, radiusY = h * 0.3\<rparr>,
      customers = [], customerObjs = [], towers = [], towerObjs = [],
      metrics = MetricsCalculator_new,
      capital = 500000, towerIdCounter = 0, customerIdCounter = 0, frameCount = 0,
      running = False, gameOver = False,
      productUpgradeActive = False, productUpgradeProgress = 0, productUpgradeCost = 0,
      canvasWidth = w, canvasHeight = h, rng = r\<rparr>"

definition Game_new :: "real \<Rightarrow> real \<Rightarrow> rand \<Rightarrow> game" where
  "Game_new w h r = (spawnInitialProspects 10 (Game_fields w h r))\<lparr>running := True\<rparr>"

definition canAfford :: "game \<Rightarrow> real \<Rightarrow> bool" where
  "canAfford g amount = (capital g \<ge> amount)"

text \<open>\<^verbatim>\<open>placeTower\<close> returns the new tower's reference, or \<open>None\<close> for \<^verbatim>\<open>null\<close>.\<close>

definition placeTower :: "game \<Rightarrow> string \<Rightarrow> point \<Rightarrow> nat option \<times> game" where
  "placeTower g ty pos =
     (let cost = getCost ty in
      if \<not> canAfford g cost then (None, g)
      else
        let tower = Tower_new (''tower_'' @ string_of_nat (towerIdCounter g)) ty pos;
            k = length (towerObjs g)
        in (Some k, g\<lparr>towerIdCounter := towerIdCounter g + 1,
                       towerObjs := towerObjs g @ [tower],
                       towers := towers g @ [k],
                       capital := capital g - cost\<rparr>))"

text \<open>
  \<^verbatim>\<open>upgradeTower\<close>: \<^verbatim>\<open>Tower.upgrade\<close> always returns \<^verbatim>\<open>true\<close>, so the final
  \<^verbatim>\<open>return false\<close> of the source is never reached and has no branch here.
\<close>

definition upgradeTower :: "game \<Rightarrow> nat \<Rightarrow> bool \<times> game" where
  "upgradeTower g k =
     (let cost = real_of_int (getUpgradeCost (towerObjs g ! k)) in
      if \<not> canAfford g cost then (False, g)
      else (True, g\<lparr>towerObjs := (towerObjs g)[k := Tower_upgrade (towerObjs g ! k)],
                      capital := capital g - cost\<rparr>))"

text \<open>
  \<^verbatim>\<open>sellTower\<close>: \<^verbatim>\<open>indexOf\<close> finds the first occurrence of the reference and
  \<^verbatim>\<open>splice(index, 1)\<close> removes it, which is \<^const>\<open>remove1\<close>.
\<close>

definition sellTower :: "game \<Rightarrow> nat \<Rightarrow> bool \<times> game" where
  "sellTower g k =
     (if k \<notin> set (towers g) then (False, g)
      else
        let v = real_of_int (getSellValue (towerObjs g ! k))
        in (True, g\<lparr>towers := remove1 k (towers g), capital := capital g + v\<rparr>))"

definition startProductUpgrade :: "game \<Rightarrow> bool \<times> game" where
  "startProductUpgrade g =
     (if productUpgradeActive g then (False, g)
      else
        let g1 = g\<lparr>productUpgradeCost := max 50000 (arr (currentMetrics (metrics g)) * 0.2)\<rparr> in
        if \<not> canAfford g1 (productUpgradeCost g1) then (False, g1)
        else (True, g1\<lparr>capital := capital g1 - productUpgradeCost g1,
                        productUpgradeActive := True,
                        productUpgradeProgress := 0\<rparr>))"

text \<open>\<^verbatim>\<open>completeProductUpgrade\<close>: the effect on one customer, then the loop.\<close>

definition productEffect :: "customer \<Rightarrow> rand \<Rightarrow> customer \<times> rand" where
  "productEffect c r =
     (if status c = ''ACTIVE'' \<or> status c = ''GOLD'' then
        (if shd r < 0.8 then
           (let r1 = stl r;
                c1 = increaseHealth c (shd r1 * 20);
                r2 = stl r1;
                c2 = increaseTrust c1 (shd r2 * 10);
                r3 = stl r2
            in if shd r3 < 0.3
               then (increaseSpend c2 (0.05 + shd (stl r3) * 0.1), stl (stl r3))
               else (c2, stl r3))
         else
           (let r1 = stl r;
                c1 = c\<lparr>health := max 0 (health c - shd r1 * 10)\<rparr>;
                r2 = stl r1;
                c2 = c1\<lparr>trust := max 0 (trust c1 - shd r2 * 5)\<rparr>
            in (c2, stl r2)))
      else (c, r))"

definition completeProductUpgrade :: "game \<Rightarrow> game" where
  "completeProductUpgrade g =
     (let (cs, r) = forEachCustomer productEffect (customers g) (customerObjs g) (rng g)
      in g\<lparr>productUpgradeActive := False, productUpgradeProgress := 0,
           customerObjs := cs, rng := r\<rparr>)"

definition updateProductUpgrade :: "game \<Rightarrow> game" where
  "updateProductUpgrade g =
     (let g1 = g\<lparr>productUpgradeProgress := productUpgradeProgress g + 0.001\<rparr> in
      if productUpgradeProgress g1 \<ge> 1 then completeProductUpgrade g1 else g1)"

definition updateMetrics :: "game \<Rightarrow> game" where
  "updateMetrics g =
     (let totalSpentOnTowers =
            foldl (\<lambda>sum k. sum + getCost (ttype (towerObjs g ! k))
                               + real_of_int (getUpgradeCostSum (towerObjs g ! k)))
                  0 (towers g)
      in g\<lparr>metrics := calculateMetrics (metrics g) (map (\<lambda>c. customerObjs g ! c) (customers g))
                          totalSpentOnTowers\<rparr>)"

definition checkGameOver :: "game \<Rightarrow> game" where
  "checkGameOver g =
     (let activeCustomers =
            filter (\<lambda>c. status (customerObjs g ! c) = ''ACTIVE'' \<or> status (customerObjs g ! c) = ''GOLD'')
                   (customers g)
      in if length activeCustomers = 0 \<and> capital g < getCost ''CSM''
         then g\<lparr>gameOver := True, running := False\<rparr>
         else g)"

text \<open>The loop over the towers in \<^verbatim>\<open>Game.update\<close>: targeting, then the attack.\<close>

fun towersLoop :: "nat list \<Rightarrow> nat list \<Rightarrow> tower list \<Rightarrow> customer list \<Rightarrow> rand
                   \<Rightarrow> tower list \<times> customer list \<times> rand" where
  "towersLoop [] population ts cs r = (ts, cs, r)"
| "towersLoop (k # rest) population ts cs r =
     (let t1 = updateTargeting cs (ts ! k) population;
          (t2, cs', r') = Tower_update t1 cs r
      in towersLoop rest population (ts[k := t2]) cs' r')"

text \<open>
  \<^verbatim>\<open>Game.update\<close>: one tick. The three blocks of its body that are loops or draw
  (spawning, moving the customers, the towers) are named; the function itself follows.
\<close>

definition spawnStep :: "game \<Rightarrow> game" where
  "spawnStep g =
     (if shd (rng g) < prospectSpawnRate
      then spawnProspect (g\<lparr>rng := stl (rng g)\<rparr>)
      else g\<lparr>rng := stl (rng g)\<rparr>)"

definition moveCustomers :: "game \<Rightarrow> game" where
  "moveCustomers g =
     (let (cs, r) = forEachCustomer (move (path g) (canvasWidth g) (canvasHeight g))
                      (customers g) (customerObjs g) (rng g)
      in g\<lparr>customerObjs := cs, rng := r\<rparr>)"

definition updateTowers :: "game \<Rightarrow> game" where
  "updateTowers g =
     (let (ts, cs, r) = towersLoop (towers g) (customers g) (towerObjs g) (customerObjs g) (rng g)
      in g\<lparr>towerObjs := ts, customerObjs := cs, rng := r\<rparr>)"

definition Game_update :: "game \<Rightarrow> game" where
  "Game_update g =
     (let g1 = g\<lparr>frameCount := frameCount g + 1\<rparr>;
          g2 = spawnStep g1;
          g3 = moveCustomers g2;
          g4 = updateTowers g3;
          g5 = (if productUpgradeActive g4 then updateProductUpgrade g4 else g4);
          g6 = updateMetrics g5
      in checkGameOver g6)"

text \<open>
  \<^verbatim>\<open>gameLoop\<close>: one animation frame. It runs \<^verbatim>\<open>ui.gameSpeed\<close> ticks (1 or 2, here the
  argument \<open>gameSpeed\<close>) unless the game is paused or over; drawing and the request for
  the next frame are left out.
\<close>

primrec updateTimes :: "nat \<Rightarrow> game \<Rightarrow> game" where
  "updateTimes 0 g = g"
| "updateTimes (Suc n) g = updateTimes n (Game_update g)"

definition gameLoop :: "nat \<Rightarrow> game \<Rightarrow> game" where
  "gameLoop gameSpeed g =
     (if \<not> running g then g
      else if gameOver g then g
      else updateTimes gameSpeed g)"

text \<open>
  What the player and the clock can do to a game: the four operations of the controller
  and one tick.
\<close>

datatype command =
  PlaceTower string point
| UpgradeTower nat
| SellTower nat
| StartProductUpgrade
| Tick

fun perform :: "game \<Rightarrow> command \<Rightarrow> game" where
  "perform g (PlaceTower ty pos) = snd (placeTower g ty pos)"
| "perform g (UpgradeTower k) = snd (upgradeTower g k)"
| "perform g (SellTower k) = snd (sellTower g k)"
| "perform g StartProductUpgrade = snd (startProductUpgrade g)"
| "perform g Tick = Game_update g"

subsection \<open>Notions of the specification\<close>


text \<open>
  The churn probability in the specification's words; \<open>decideRenewal\<close> computes
  \<open>(100 - trust) * 0.01 * (100 - health) * 0.01\<close>.
\<close>

definition churnProbability :: "customer \<Rightarrow> real" where
  "churnProbability c = (1 - trust c / 100) * (1 - health c / 100)"

subsection \<open>Example states\<close>

text \<open>The path of an 800 by 600 canvas.\<close>

definition examplePath :: infinityPath where
  "examplePath = \<lparr>centerX = 400, centerY = 300, radiusX = 320, radiusY = 180\<rparr>"

text \<open>An active customer on the track, one step before the end of its third lap.\<close>

definition renewingCustomer :: customer where
  "renewingCustomer =
     \<lparr>cid = ''customer_3'', ctype = ''SMALL'', status = ''ACTIVE'',
      position = \<lparr>pos_x = 400, pos_y = 300\<rparr>,
      health = 60, spend = 8000, trust = 50,
      lapCount = 2, pathPosition = 0.9995, movementSpeed = 0.001,
      isOnTrack = True, targetPoint = Some \<lparr>pos_x = 400, pos_y = 300\<rparr>,
      approachSpeed = 0.75, engaged = True\<rparr>"

text \<open>A fresh prospect at the top edge, as \<open>spawnAtMapEdge\<close> makes it.\<close>

definition wanderingProspect :: customer where
  "wanderingProspect =
     \<lparr>cid = ''customer_0'', ctype = ''SMALL'', status = ''PROSPECT'',
      position = \<lparr>pos_x = 200, pos_y = - 20\<rparr>,
      health = 100, spend = 7500, trust = 50,
      lapCount = 0, pathPosition = 0, movementSpeed = 0.00125,
      isOnTrack = False, targetPoint = None,
      approachSpeed = 0.75, engaged = False\<rparr>"

text \<open>A SALES tower that has attacked before and has lost its targets since.\<close>

definition idleTower :: tower where
  "idleTower = (Tower_new ''tower_0'' ''SALES'' \<lparr>pos_x = 200, pos_y = 300\<rparr>)\<lparr>attackCooldown := 5\<rparr>"

text \<open>
  A game whose only tower is \<open>idleTower\<close> and whose only customer is
  \<open>wanderingProspect\<close>, 320 away from the tower. The draws to come are all 1/2.
\<close>

definition idleTowerGame :: game where
  "idleTowerGame =
     (Game_fields 800 600 (sconst (1 / 2)))\<lparr>customers := [0], customerObjs := [wanderingProspect],
        customerIdCounter := 1, towers := [0], towerObjs := [idleTower],
        towerIdCounter := 1, capital := 425000\<rparr>"

text \<open>A SALES tower next to \<open>wanderingProspect\<close>, which it targets.\<close>

definition busyTower :: tower where
  "busyTower = (Tower_new ''tower_0'' ''SALES'' \<lparr>pos_x = 200, pos_y = 20\<rparr>)\<lparr>currentTargets := [0]\<rparr>"

text \<open>A game whose only customer is \<open>wanderingProspect\<close>.\<close>

definition prospectGame :: game where
  "prospectGame =
     (Game_fields 800 600 (sconst (1 / 2)))\<lparr>customers := [0], customerObjs := [wanderingProspect],
        customerIdCounter := 1\<rparr>"

text \<open>The game after the constructor and eight CSM towers: 20000 are left.\<close>

definition shortOfCashGame :: game where
  "shortOfCashGame =
     foldl perform (Game_new 800 600 (sconst (1 / 2)))
       [PlaceTower ''CSM'' \<lparr>pos_x = 100, pos_y = 100\<rparr>, PlaceTower ''CSM'' \<lparr>pos_x = 200, pos_y = 100\<rparr>,
        PlaceTower ''CSM'' \<lparr>pos_x = 300, pos_y = 100\<rparr>, PlaceTower ''CSM'' \<lparr>pos_x = 400, pos_y = 100\<rparr>,
        PlaceTower ''CSM'' \<lparr>pos_x = 500, pos_y = 100\<rparr>, PlaceTower ''CSM'' \<lparr>pos_x = 600, pos_y = 100\<rparr>,
        PlaceTower ''CSM'' \<lparr>pos_x = 700, pos_y = 100\<rparr>, PlaceTower ''CSM'' \<lparr>pos_x = 100, pos_y = 500\<rparr>]"








text \<open>A series of calls of \<open>calculateMetrics\<close>, each with its customers and tower spend.\<close>

primrec calculateMetricsRun ::
  "metricsCalculator \<Rightarrow> (customer list \<times> real) list \<Rightarrow> metricsCalculator" where
  "calculateMetricsRun m [] = m"
| "calculateMetricsRun m (call # calls) =
     calculateMetricsRun (calculateMetrics m (fst call) (snd call)) calls"

text \<open>
  GRR and NRR in the specification's words: the spend of a snapshot, the ids present in
  both snapshots, and the two ratios.
\<close>

definition totalSpend :: "(string \<times> real) list \<Rightarrow> real" where
  "totalSpend snap = (\<Sum>e\<leftarrow>snap. snd e)"

definition retainedIds :: "(string \<times> real) list \<Rightarrow> (string \<times> real) list \<Rightarrow> string set" where
  "retainedIds prevSnap currSnap = fst ` set prevSnap \<inter> fst ` set currSnap"

definition specGRR :: "(string \<times> real) list \<Rightarrow> (string \<times> real) list \<Rightarrow> real" where
  "specGRR prevSnap currSnap =
     min 1 (totalSpend (filter (\<lambda>e. fst e \<in> retainedIds prevSnap currSnap) prevSnap) / totalSpend prevSnap)"

definition specNRR :: "(string \<times> real) list \<Rightarrow> (string \<times> real) list \<Rightarrow> real" where
  "specNRR prevSnap currSnap =
     totalSpend (filter (\<lambda>e. fst e \<in> retainedIds prevSnap currSnap) currSnap) / totalSpend prevSnap"

text \<open>
  What the claim says of the calculator after a call, for the last two snapshots of its
  history.
\<close>

definition retentionAsSpecified :: "metricsCalculator \<Rightarrow> bool" where
  "retentionAsSpecified m =
     (let h = history_customers m;
          prevSnap = h ! (length h - 2);
          currSnap = h ! (length h - 1);
          cm = currentMetrics m
      in (totalSpend prevSnap > 0 \<longrightarrow> grr cm = specGRR prevSnap currSnap \<and> nrr cm = specNRR prevSnap currSnap)
       \<and> (totalSpend prevSnap = 0 \<longrightarrow> grr cm = 0 \<and> nrr cm = 0))"

text \<open>
  What the history keeps: both arrays have one length, spends are positive, the last
  ARR entry is the spend of the last snapshot, and the last two snapshots differ in spend
  (an entry is pushed only when the ARR changes).
\<close>

definition historyInvariant :: "metricsCalculator \<Rightarrow> bool" where
  "historyInvariant m =
     (let h = history_customers m in
      length (history_arr m) = length h
      \<and> (\<forall>snap \<in> set h. \<forall>e \<in> set snap. 0 < snd e)
      \<and> (h \<noteq> [] \<longrightarrow> last (history_arr m) = totalSpend (last h))
      \<and> (length h \<ge> 2 \<longrightarrow> totalSpend (h ! (length h - 2)) \<noteq> totalSpend (h ! (length h - 1))))"

text \<open>When the second to last snapshot has no spend, GRR and NRR are 0.\<close>

definition staleRetentionIsZero :: "metricsCalculator \<Rightarrow> bool" where
  "staleRetentionIsZero m =
     (let h = history_customers m in
      length h < 2 \<or> totalSpend (h ! (length h - 2)) = 0
        \<longrightarrow> grr (currentMetrics m) = 0 \<and> nrr (currentMetrics m) = 0)"


text \<open>Pushing onto a history array that keeps its last 12 entries.\<close>

definition pushCapped :: "'a list \<Rightarrow> 'a \<Rightarrow> 'a list" where
  "pushCapped h x = (if length (h @ [x]) > 12 then tl (h @ [x]) else h @ [x])"


text \<open>With a positive previous spend, GRR and NRR are the specified ratios.\<close>

definition freshRetention :: "metricsCalculator \<Rightarrow> bool" where
  "freshRetention m =
     (let h = history_customers m in
      2 \<le> length h \<and> 0 < totalSpend (last (butlast h)) \<longrightarrow>
        grr (currentMetrics m) = specGRR (last (butlast h)) (last h)
        \<and> nrr (currentMetrics m) = specNRR (last (butlast h)) (last h))"


text \<open>
  Two series of calls. In the first, one of two accounts churns and the other expands;
  in the second, the first snapshot is empty and a sale follows.
\<close>

definition accountA :: "real \<Rightarrow> customer" where
  "accountA s = renewingCustomer\<lparr>cid := ''customer_0'', spend := s\<rparr>"

definition accountB :: "string \<Rightarrow> customer" where
  "accountB st = renewingCustomer\<lparr>cid := ''customer_1'', status := st, spend := 300\<rparr>"

definition churnCalls :: "(customer list \<times> real) list" where
  "churnCalls = [([accountA 100, accountB ''ACTIVE''], 75000),
                 ([accountA 150, accountB ''CHURNED''], 75000)]"

definition firstSaleCalls :: "(customer list \<times> real) list" where
  "firstSaleCalls = [([accountB ''PROSPECT''], 75000), ([accountB ''ACTIVE''], 75000)]"


text \<open>Cooldown, burnout and attack speed of a tower are not negative.\<close>

definition towerTimingOK :: "tower \<Rightarrow> bool" where
  "towerTimingOK t = (0 \<le> attackCooldown t \<and> 0 \<le> burnoutLevel t \<and> 0 \<le> attackSpeed t)"

section \<open>Properties\<close>

subsection \<open>Fields that a step leaves alone\<close>

lemma spawnInitialProspects_capital: "capital (spawnInitialProspects n g) = capital g"
  by (induction n arbitrary: g) (simp_all add: spawnProspect_def split_def Let_def)

lemma spawnStep_fields:
  "capital (spawnStep g) = capital g" "gameOver (spawnStep g) = gameOver g"
  "towerObjs (spawnStep g) = towerObjs g" "towers (spawnStep g) = towers g"
  by (simp_all add: spawnStep_def spawnProspect_def split_def Let_def)

lemma moveCustomers_fields:
  "capital (moveCustomers g) = capital g" "gameOver (moveCustomers g) = gameOver g"
  "towerObjs (moveCustomers g) = towerObjs g" "towers (moveCustomers g) = towers g"
  "customers (moveCustomers g) = customers g"
  by (simp_all add: moveCustomers_def split_def Let_def)

lemma updateTowers_fields:
  "capital (updateTowers g) = capital g" "gameOver (updateTowers g) = gameOver g"
  "towers (updateTowers g) = towers g" "customers (updateTowers g) = customers g"
  by (simp_all add: updateTowers_def split_def Let_def)

lemma completeProductUpgrade_fields:
  "capital (completeProductUpgrade g) = capital g"
  "gameOver (completeProductUpgrade g) = gameOver g"
  "towerObjs (completeProductUpgrade g) = towerObjs g"
  "towers (completeProductUpgrade g) = towers g"
  "customers (completeProductUpgrade g) = customers g"
  by (simp_all add: completeProductUpgrade_def split_def Let_def)

lemma updateProductUpgrade_fields:
  "capital (updateProductUpgrade g) = capital g"
  "gameOver (updateProductUpgrade g) = gameOver g"
  "towerObjs (updateProductUpgrade g) = towerObjs g"
  "towers (updateProductUpgrade g) = towers g"
  "customers (updateProductUpgrade g) = customers g"
  by (simp_all add: updateProductUpgrade_def completeProductUpgrade_fields Let_def)

lemma updateMetrics_fields:
  "capital (updateMetrics g) = capital g" "gameOver (updateMetrics g) = gameOver g"
  "towerObjs (updateMetrics g) = towerObjs g" "towers (updateMetrics g) = towers g"
  "customers (updateMetrics g) = customers g" "customerObjs (updateMetrics g) = customerObjs g"
  by (simp_all add: updateMetrics_def Let_def)

lemma checkGameOver_fields:
  "capital (checkGameOver g) = capital g"
  "towerObjs (checkGameOver g) = towerObjs g" "towers (checkGameOver g) = towers g"
  "customers (checkGameOver g) = customers g" "customerObjs (checkGameOver g) = customerObjs g"
  by (simp_all add: checkGameOver_def Let_def)

lemmas tick_fields =
  spawnStep_fields moveCustomers_fields updateTowers_fields updateProductUpgrade_fields
  updateMetrics_fields checkGameOver_fields

lemma Game_update_capital: "capital (Game_update g) = capital g"
  by (simp add: Game_update_def Let_def tick_fields)

subsection \<open>The terminal condition\<close>



text \<open>The tick as its last step applied to the state the earlier steps produce.\<close>

lemma Game_update_unfold:
  "Game_update g =
     checkGameOver (updateMetrics
       (let g4 = updateTowers (moveCustomers (spawnStep (g\<lparr>frameCount := frameCount g + 1\<rparr>)))
        in if productUpgradeActive g4 then updateProductUpgrade g4 else g4))"
  unfolding Game_update_def Let_def ..




text \<open>Once the game is over, a frame runs no tick.\<close>

lemma gameLoop_when_over: "gameOver g \<Longrightarrow> gameLoop gameSpeed g = g"
  by (simp add: gameLoop_def)

lemma gameLoop_first_tick:
  "running g \<Longrightarrow> \<not> gameOver g \<Longrightarrow> gameLoop (Suc n) g = updateTimes n (Game_update g)"
  by (simp add: gameLoop_def)



subsection \<open>Buying and selling towers\<close>

lemma Math_round_of_int [simp]: "Math_round (real_of_int n) = n"
  by (simp add: Math_round_def)

lemma getSellValue_new: "getSellValue (Tower_new i ty pos) = Math_round (0.7 * getCost ty)"
  by (simp add: getSellValue_def getUpgradeCostSum_def Tower_new_def mult.commute)

lemma sell_value_below_cost: "real_of_int (Math_round (0.7 * getCost ty)) < getCost ty"
  by (simp add: getCost_def Math_round_def)

text \<open>
  C7. For every tower type, a tower that is placed and sold at once, still at level 1,
  brings back \<open>round (0.7 * baseCost)\<close>, which is strictly less than the \<open>baseCost\<close> that
  placing it took: the capital ends strictly lower than it started.
\<close>

theorem place_then_sell:
  assumes "canAfford g (getCost ty)"
  shows "\<exists>k g1 g2. placeTower g ty pos = (Some k, g1)
           \<and> level (towerObjs g1 ! k) = 1
           \<and> capital g1 = capital g - getCost ty
           \<and> sellTower g1 k = (True, g2)
           \<and> capital g2 = capital g1 + real_of_int (Math_round (0.7 * getCost ty))
           \<and> real_of_int (Math_round (0.7 * getCost ty)) < getCost ty
           \<and> capital g2 < capital g"
  using assms sell_value_below_cost [of ty]
  by (simp add: placeTower_def sellTower_def Let_def getSellValue_new nth_append)
     (simp add: Tower_new_def)

theorem place_then_sell_witness:
  "canAfford (Game_fields 800 600 (sconst 0)) (getCost ''SALES'')
   \<and> (\<exists>k g1 g2. placeTower (Game_fields 800 600 (sconst 0)) ''SALES'' \<lparr>pos_x = 100, pos_y = 100\<rparr>
                   = (Some k, g1)
         \<and> capital g1 = 425000 \<and> sellTower g1 k = (True, g2) \<and> capital g2 = 477500)"
proof -
  have h: "canAfford (Game_fields 800 600 (sconst 0)) (getCost ''SALES'')"
    by (simp add: canAfford_def Game_fields_def getCost_def)
  have c: "capital (Game_fields 800 600 (sconst 0)) = 500000"
    by (simp add: Game_fields_def)
  have v: "Math_round (0.7 * getCost ''SALES'') = 52500"
    by (simp add: getCost_def Math_round_def)
  from place_then_sell [OF h, of "\<lparr>pos_x = 100, pos_y = 100\<rparr>"] obtain k g1 g2 where
    "placeTower (Game_fields 800 600 (sconst 0)) ''SALES'' \<lparr>pos_x = 100, pos_y = 100\<rparr> = (Some k, g1)"
    "capital g1 = capital (Game_fields 800 600 (sconst 0)) - getCost ''SALES''"
    "sellTower g1 k = (True, g2)"
    "capital g2 = capital g1 + real_of_int (Math_round (0.7 * getCost ''SALES''))"
    by blast
  then show ?thesis using h c v by (simp add: getCost_def)
qed

subsection \<open>A new customer\<close>

text \<open>
  C10. A newly constructed customer is a PROSPECT with health 100, trust 50, no laps, path
  position 0, off the track and not engaged. Of the two factors of the churn probability
  \<open>(1 - trust/100) * (1 - health/100)\<close>, the health factor of such a customer is 0 and
  the trust factor is 1/2: what risk a fresh customer carries comes from trust.
\<close>

theorem customer_constructor_initial_state:
  "status (fst (Customer_new i ty pos r)) = ''PROSPECT''
   \<and> health (fst (Customer_new i ty pos r)) = 100
   \<and> trust (fst (Customer_new i ty pos r)) = 50
   \<and> lapCount (fst (Customer_new i ty pos r)) = 0
   \<and> pathPosition (fst (Customer_new i ty pos r)) = 0
   \<and> \<not> isOnTrack (fst (Customer_new i ty pos r))
   \<and> \<not> engaged (fst (Customer_new i ty pos r))
   \<and> 1 - trust (fst (Customer_new i ty pos r)) / 100 = 1 / 2
   \<and> 1 - health (fst (Customer_new i ty pos r)) / 100 = 0"
  by (simp add: Customer_new_def Let_def split_def)

subsection \<open>Loops over customers\<close>

lemma forEachCustomer_length [simp]:
  "length (fst (forEachCustomer f refs cs r)) = length cs"
  by (induction refs arbitrary: cs r) (simp_all add: split_def Let_def)

text \<open>A property of a customer that the loop body keeps, the loop keeps for every object.\<close>

lemma forEachCustomer_keeps:
  assumes step: "\<And>c r. P c \<Longrightarrow> P (fst (f c r))"
  shows "k < length cs \<Longrightarrow> P (cs ! k) \<Longrightarrow> P (fst (forEachCustomer f refs cs r) ! k)"
proof (induction refs arbitrary: cs r)
  case Nil
  then show ?case by simp
next
  case (Cons c rest)
  have "P ((cs[c := fst (f (cs ! c) r)]) ! k)"
  proof (cases "c = k")
    case True
    with Cons.prems step show ?thesis by simp
  next
    case False
    with Cons.prems show ?thesis by simp
  qed
  with Cons.prems Cons.IH [of "cs[c := fst (f (cs ! c) r)]" "snd (f (cs ! c) r)"]
  show ?case by (simp add: split_def Let_def)
qed

lemma attackTargets_length [simp]: "length (fst (attackTargets t cs r)) = length cs"
  by (simp add: attackTargets_def)

lemma Tower_update_length [simp]: "length (fst (snd (Tower_update t cs r))) = length cs"
  by (simp add: Tower_update_def split_def Let_def)

lemma Tower_update_keeps:
  assumes "\<And>t c r. P c \<Longrightarrow> P (fst (attackSales t c r))"
    and "\<And>t c r. P c \<Longrightarrow> P (fst (attackCSM t c r))"
  shows "k < length cs \<Longrightarrow> P (cs ! k) \<Longrightarrow> P (fst (snd (Tower_update t cs r)) ! k)"
  using assms
  by (simp add: Tower_update_def attackTargets_def split_def Let_def forEachCustomer_keeps)

lemma towersLoop_keeps:
  assumes sales: "\<And>t c r. P c \<Longrightarrow> P (fst (attackSales t c r))"
    and csm: "\<And>t c r. P c \<Longrightarrow> P (fst (attackCSM t c r))"
  shows "k < length cs \<Longrightarrow> P (cs ! k)
   \<Longrightarrow> k < length (fst (snd (towersLoop trefs pop ts cs r)))
     \<and> P (fst (snd (towersLoop trefs pop ts cs r)) ! k)"
proof (induction trefs arbitrary: ts cs r)
  case Nil
  then show ?case by simp
next
  case (Cons a trefs)
  let ?u = "Tower_update (updateTargeting cs (ts ! a) pop) cs r"
  from Cons.prems have "k < length (fst (snd ?u))" "P (fst (snd ?u) ! k)"
    by (simp_all add: Tower_update_keeps [where P = P, OF sales csm])
  from Cons.IH [OF this] show ?case by (simp add: split_def Let_def)
qed

lemma moveCustomers_keeps:
  assumes "\<And>p w h c r. P c \<Longrightarrow> P (fst (move p w h c r))"
  shows "k < length (customerObjs g) \<Longrightarrow> P (customerObjs g ! k)
   \<Longrightarrow> k < length (customerObjs (moveCustomers g)) \<and> P (customerObjs (moveCustomers g) ! k)"
  using assms by (simp add: moveCustomers_def Let_def split_def forEachCustomer_keeps)

lemma updateTowers_keeps:
  assumes "\<And>t c r. P c \<Longrightarrow> P (fst (attackSales t c r))"
    and "\<And>t c r. P c \<Longrightarrow> P (fst (attackCSM t c r))"
  shows "k < length (customerObjs g) \<Longrightarrow> P (customerObjs g ! k)
   \<Longrightarrow> k < length (customerObjs (updateTowers g)) \<and> P (customerObjs (updateTowers g) ! k)"
  using towersLoop_keeps [where P = P, OF assms,
      of k "customerObjs g" "towers g" "customers g" "towerObjs g" "rng g"]
  by (simp add: updateTowers_def Let_def split_def)

lemma updateProductUpgrade_length [simp]:
  "length (customerObjs (updateProductUpgrade g)) = length (customerObjs g)"
  by (simp add: updateProductUpgrade_def completeProductUpgrade_def Let_def split_def)

lemma updateProductUpgrade_keeps:
  assumes "\<And>c r. P c \<Longrightarrow> P (fst (productEffect c r))"
  shows "k < length (customerObjs g) \<Longrightarrow> P (customerObjs g ! k)
   \<Longrightarrow> P (customerObjs (updateProductUpgrade g) ! k)"
  using assms
  by (simp add: updateProductUpgrade_def completeProductUpgrade_def Let_def split_def
        forEachCustomer_keeps)

lemma spawnStep_old_customer:
  "k < length (customerObjs g) \<Longrightarrow>
     customerObjs (spawnStep g) ! k = customerObjs g ! k \<and> k < length (customerObjs (spawnStep g))"
  by (simp add: spawnStep_def spawnProspect_def Let_def split_def nth_append)

subsection \<open>Renewal at the end of a lap\<close>

lemma move_wraps:
  assumes "isOnTrack c" "pathPosition c + movementSpeed c \<ge> 1"
  shows "move p w h c r =
           (let (c2, r2) = onLapComplete (c\<lparr>pathPosition := 0, lapCount := lapCount c + 1\<rparr>) r
            in (c2\<lparr>position := getPointAtPosition p (pathPosition c2)\<rparr>, r2))"
  using assms by (simp add: move_def Let_def)

text \<open>\<open>decideRenewal\<close> draws against the churn probability of the specification.\<close>

lemma decideRenewal_churnProbability:
  "decideRenewal c r =
     (if shd r < churnProbability c then (c\<lparr>status := ''CHURNED''\<rparr>, stl r)
      else if shd (stl r) < 0.2
        then (c\<lparr>spend := spend c * (1 + shd (stl (stl r)) * 0.1)\<rparr>, stl (stl (stl r)))
        else (c, stl (stl r)))"
proof -
  have "(100 - trust c) * 0.01 * (100 - health c) * 0.01 = churnProbability c"
    by (simp add: churnProbability_def field_simps)
  then show ?thesis by (simp only: decideRenewal_def Let_def)
qed

lemma churnProbability_lap [simp]:
  "churnProbability (c\<lparr>pathPosition := a, lapCount := n\<rparr>) = churnProbability c"
  by (simp add: churnProbability_def)

text \<open>
  C3. Let an on-track customer's path position wrap past 1.0. A PROSPECT only has its
  position reset and its lap counted: no draw, no decay. Any other customer loses 5 trust
  and 5 health, floored at 0. An ACTIVE customer becomes CHURNED exactly when the first
  draw is below \<open>(1 - trust/100) * (1 - health/100)\<close>; if it survives and the second draw
  is below 0.2, its spend is multiplied by \<open>1 + 0.1 * d\<close> for the third draw \<open>d\<close>, a factor
  in [1.0, 1.1); otherwise its spend stays. A CHURNED or GOLD customer keeps status and
  spend and takes no draw.
\<close>

theorem lap_completion:
  assumes "isOnTrack c" and "pathPosition c + movementSpeed c \<ge> 1"
  shows "(status c = ''PROSPECT'' \<longrightarrow>
            move p w h c r = (c\<lparr>pathPosition := 0, lapCount := lapCount c + 1,
                                 position := getPointAtPosition p 0\<rparr>, r))
       \<and> (status c \<noteq> ''PROSPECT'' \<longrightarrow>
            trust (fst (move p w h c r)) = max 0 (trust c - 5)
          \<and> health (fst (move p w h c r)) = max 0 (health c - 5))
       \<and> (status c = ''ACTIVE'' \<longrightarrow>
            (status (fst (move p w h c r)) = ''CHURNED'' \<longleftrightarrow> shd r < churnProbability c)
          \<and> (shd r < churnProbability c \<longrightarrow> spend (fst (move p w h c r)) = spend c)
          \<and> (\<not> shd r < churnProbability c \<longrightarrow>
                status (fst (move p w h c r)) = ''ACTIVE''
              \<and> (shd (stl r) < 0.2 \<longrightarrow>
                    spend (fst (move p w h c r)) = spend c * (1 + shd (stl (stl r)) * 0.1))
              \<and> (\<not> shd (stl r) < 0.2 \<longrightarrow> spend (fst (move p w h c r)) = spend c)))
       \<and> (status c \<noteq> ''PROSPECT'' \<and> status c \<noteq> ''ACTIVE'' \<longrightarrow>
            status (fst (move p w h c r)) = status c \<and> spend (fst (move p w h c r)) = spend c
          \<and> snd (move p w h c r) = r)
       \<and> (0 \<le> shd (stl (stl r)) \<and> shd (stl (stl r)) < 1 \<longrightarrow>
            1 \<le> 1 + shd (stl (stl r)) * 0.1 \<and> 1 + shd (stl (stl r)) * 0.1 < 1.1)"
  using assms
  by (auto simp add: move_wraps onLapComplete_def decideRenewal_churnProbability Let_def split_def)

lemma renewingCustomer_facts:
  "isOnTrack renewingCustomer" "pathPosition renewingCustomer + movementSpeed renewingCustomer \<ge> 1"
  "status renewingCustomer = ''ACTIVE''" "churnProbability renewingCustomer = 1 / 5"
  "spend renewingCustomer = 8000" "trust renewingCustomer = 50" "health renewingCustomer = 60"
  by (simp_all add: renewingCustomer_def churnProbability_def)

theorem lap_completion_witness:
  "isOnTrack renewingCustomer
   \<and> pathPosition renewingCustomer + movementSpeed renewingCustomer \<ge> 1
   \<and> status (fst (move examplePath 800 600 renewingCustomer (sconst (1 / 10)))) = ''CHURNED''
   \<and> spend (fst (move examplePath 800 600 renewingCustomer (sconst (1 / 10)))) = 8000
   \<and> trust (fst (move examplePath 800 600 renewingCustomer (sconst (1 / 10)))) = 45
   \<and> health (fst (move examplePath 800 600 renewingCustomer (sconst (1 / 10)))) = 55
   \<and> status (fst (move examplePath 800 600 renewingCustomer (1 / 2 ## sconst (1 / 10)))) = ''ACTIVE''
   \<and> spend (fst (move examplePath 800 600 renewingCustomer (1 / 2 ## sconst (1 / 10)))) = 8080
   \<and> trust (fst (move examplePath 800 600 renewingCustomer (1 / 2 ## sconst (1 / 10)))) = 45"
  using lap_completion [of renewingCustomer examplePath 800 600 "sconst (1 / 10)"]
        lap_completion [of renewingCustomer examplePath 800 600 "1 / 2 ## sconst (1 / 10)"]
  by (simp add: renewingCustomer_facts)

subsection \<open>Invariants of the customer objects\<close>

lemma foldl_perform_invariant:
  assumes "I g" and "\<And>g cmd. I g \<Longrightarrow> I (perform g cmd)"
  shows "I (foldl perform g cmds)"
  using assms by (induction cmds arbitrary: g) simp_all

lemma towersLoop_length [simp]:
  "length (fst (snd (towersLoop trefs pop ts cs r))) = length cs"
  by (induction trefs arbitrary: ts cs r) (simp_all add: split_def Let_def)

lemma operations_customerObjs:
  "customerObjs (snd (placeTower g ty pos)) = customerObjs g"
  "customerObjs (snd (upgradeTower g k)) = customerObjs g"
  "customerObjs (snd (sellTower g k)) = customerObjs g"
  "customerObjs (snd (startProductUpgrade g)) = customerObjs g"
  by (simp_all add: placeTower_def upgradeTower_def sellTower_def startProductUpgrade_def Let_def)

text \<open>
  A property of customers that a new prospect has and that every function changing a
  customer keeps, holds for all customer objects after a tick if it held before.
\<close>

lemma spawnProspect_all:
  assumes new: "\<And>w h i ty r. P (fst (spawnAtMapEdge w h i ty r))"
    and "\<forall>c \<in> set (customerObjs g). P c"
  shows "\<forall>c \<in> set (customerObjs (spawnProspect g)). P c"
  using assms by (simp add: spawnProspect_def Let_def split_def)

lemma moveCustomers_length [simp]:
  "length (customerObjs (moveCustomers g)) = length (customerObjs g)"
  by (simp add: moveCustomers_def Let_def split_def)

lemma updateTowers_length [simp]:
  "length (customerObjs (updateTowers g)) = length (customerObjs g)"
  by (simp add: updateTowers_def Let_def split_def)

lemma moveCustomers_all:
  assumes "\<And>p w h c r. P c \<Longrightarrow> P (fst (move p w h c r))"
    and "\<forall>c \<in> set (customerObjs g). P c"
  shows "\<forall>c \<in> set (customerObjs (moveCustomers g)). P c"
  using assms(2) moveCustomers_keeps [where P = P, OF assms(1), of _ g]
  by (simp add: all_set_conv_all_nth)

lemma updateTowers_all:
  assumes "\<And>t c r. P c \<Longrightarrow> P (fst (attackSales t c r))"
    and "\<And>t c r. P c \<Longrightarrow> P (fst (attackCSM t c r))"
    and "\<forall>c \<in> set (customerObjs g). P c"
  shows "\<forall>c \<in> set (customerObjs (updateTowers g)). P c"
  using assms(3) updateTowers_keeps [where P = P, OF assms(1,2), of _ g]
  by (simp add: all_set_conv_all_nth)

lemma updateProductUpgrade_all:
  assumes "\<And>c r. P c \<Longrightarrow> P (fst (productEffect c r))"
    and "\<forall>c \<in> set (customerObjs g). P c"
  shows "\<forall>c \<in> set (customerObjs (updateProductUpgrade g)). P c"
  using assms(2) updateProductUpgrade_keeps [where P = P, OF assms(1), of _ g]
  by (simp add: all_set_conv_all_nth)

lemma Game_update_all:
  assumes new: "\<And>w h i ty r. P (fst (spawnAtMapEdge w h i ty r))"
    and mv: "\<And>p w h c r. P c \<Longrightarrow> P (fst (move p w h c r))"
    and sales: "\<And>t c r. P c \<Longrightarrow> P (fst (attackSales t c r))"
    and csm: "\<And>t c r. P c \<Longrightarrow> P (fst (attackCSM t c r))"
    and prod: "\<And>c r. P c \<Longrightarrow> P (fst (productEffect c r))"
    and inv: "\<forall>c \<in> set (customerObjs g). P c"
  shows "\<forall>c \<in> set (customerObjs (Game_update g)). P c"
proof -
  let ?g1 = "g\<lparr>frameCount := frameCount g + 1\<rparr>"
  let ?g2 = "spawnStep ?g1"
  let ?g3 = "moveCustomers ?g2"
  let ?g4 = "updateTowers ?g3"
  have 2: "\<forall>c \<in> set (customerObjs ?g2). P c"
    using inv spawnProspect_all [where P = P, OF new, of "?g1\<lparr>rng := stl (rng ?g1)\<rparr>"]
    by (simp add: spawnStep_def)
  have 3: "\<forall>c \<in> set (customerObjs ?g3). P c"
    by (rule moveCustomers_all [where P = P, OF mv 2])
  have 4: "\<forall>c \<in> set (customerObjs ?g4). P c"
    by (rule updateTowers_all [where P = P, OF sales csm 3])
  have 5: "\<forall>c \<in> set (customerObjs (updateProductUpgrade ?g4)). P c"
    by (rule updateProductUpgrade_all [where P = P, OF prod 4])
  show ?thesis
    using 4 5 by (simp add: Game_update_unfold Let_def tick_fields)
qed

lemma perform_all:
  assumes new: "\<And>w h i ty r. P (fst (spawnAtMapEdge w h i ty r))"
    and mv: "\<And>p w h c r. P c \<Longrightarrow> P (fst (move p w h c r))"
    and sales: "\<And>t c r. P c \<Longrightarrow> P (fst (attackSales t c r))"
    and csm: "\<And>t c r. P c \<Longrightarrow> P (fst (attackCSM t c r))"
    and prod: "\<And>c r. P c \<Longrightarrow> P (fst (productEffect c r))"
    and inv: "\<forall>c \<in> set (customerObjs g). P c"
  shows "\<forall>c \<in> set (customerObjs (perform g cmd)). P c"
  using inv Game_update_all [where P = P, OF new mv sales csm prod, of g]
  by (cases cmd) (simp_all add: operations_customerObjs)

lemma spawnInitialProspects_all:
  assumes new: "\<And>w h i ty r. P (fst (spawnAtMapEdge w h i ty r))"
  shows "\<forall>c \<in> set (customerObjs g). P c
         \<Longrightarrow> \<forall>c \<in> set (customerObjs (spawnInitialProspects n g)). P c"
proof (induction n arbitrary: g)
  case 0
  then show ?case by simp
next
  case (Suc n)
  from Suc.IH [OF spawnProspect_all [where P = P, OF new Suc.prems]] show ?case by simp
qed

lemma reachable_all:
  assumes new: "\<And>w h i ty r. P (fst (spawnAtMapEdge w h i ty r))"
    and mv: "\<And>p w h c r. P c \<Longrightarrow> P (fst (move p w h c r))"
    and sales: "\<And>t c r. P c \<Longrightarrow> P (fst (attackSales t c r))"
    and csm: "\<And>t c r. P c \<Longrightarrow> P (fst (attackCSM t c r))"
    and prod: "\<And>c r. P c \<Longrightarrow> P (fst (productEffect c r))"
  shows "\<forall>c \<in> set (customerObjs (foldl perform (Game_new w h r) cmds)). P c"
proof (rule foldl_perform_invariant [where I = "\<lambda>g. \<forall>c \<in> set (customerObjs g). P c"])
  show "\<forall>c \<in> set (customerObjs (Game_new w h r)). P c"
    using spawnInitialProspects_all [where P = P, OF new, of "Game_fields w h r" 10]
    by (simp add: Game_new_def Game_fields_def)
next
  fix g :: game and cmd
  assume a: "\<forall>c \<in> set (customerObjs g). P c"
  show "\<forall>c \<in> set (customerObjs (perform g cmd)). P c"
    using perform_all [where P = P and g = g and cmd = cmd] new mv sales csm prod a by blast
qed

subsection \<open>Engagement gates the track\<close>

lemma onLapComplete_flags:
  "isOnTrack (fst (onLapComplete c r)) = isOnTrack c"
  "engaged (fst (onLapComplete c r)) = engaged c"
  by (simp_all add: onLapComplete_def decideRenewal_def Let_def split_def)

lemma moveTowardsTrack_engaged: "engaged (fst (moveTowardsTrack p c r)) = engaged c"
  by (simp add: moveTowardsTrack_def Let_def split_def split: option.splits)

lemma move_engaged: "engaged (fst (move p w h c r)) = engaged c"
  by (simp add: move_def wanderOnEdge_def moveTowardsTrack_engaged onLapComplete_flags
        Let_def split_def)

lemma move_not_engaged:
  "\<not> engaged c \<Longrightarrow> isOnTrack (fst (move p w h c r)) = isOnTrack c"
  by (simp add: move_def wanderOnEdge_def onLapComplete_flags Let_def split_def)

lemma attack_isOnTrack:
  "isOnTrack (fst (attackSales t c r)) = isOnTrack c"
  "isOnTrack (fst (attackCSM t c r)) = isOnTrack c"
  by (simp_all add: attackSales_def attackCSM_def convert_def increaseSpend_def recoverToGold_def
        increaseHealth_def increaseTrust_def Let_def)

lemma attack_engaged:
  "engaged (fst (attackSales t c r))" "engaged (fst (attackCSM t c r))"
  by (simp_all add: attackSales_def attackCSM_def convert_def increaseSpend_def recoverToGold_def
        increaseHealth_def increaseTrust_def Let_def)

lemma productEffect_flags:
  "isOnTrack (fst (productEffect c r)) = isOnTrack c"
  "engaged (fst (productEffect c r)) = engaged c"
  by (simp_all add: productEffect_def increaseSpend_def increaseHealth_def increaseTrust_def Let_def)

lemma spawnAtMapEdge_flags:
  "\<not> isOnTrack (fst (spawnAtMapEdge w h i ty r))" "\<not> engaged (fst (spawnAtMapEdge w h i ty r))"
  by (simp_all add: spawnAtMapEdge_def Customer_new_def Let_def split_def)

lemma tick_off_track:
  assumes "k < length (customerObjs g)" "\<not> engaged (customerObjs g ! k)" "\<not> isOnTrack (customerObjs g ! k)"
  shows "\<not> isOnTrack (customerObjs (Game_update g) ! k)"
proof -
  let ?g1 = "g\<lparr>frameCount := frameCount g + 1\<rparr>"
  let ?P = "\<lambda>c. \<not> isOnTrack c \<and> \<not> engaged c"
  let ?Q = "\<lambda>c. \<not> isOnTrack c"
  have 1: "k < length (customerObjs (spawnStep ?g1))" "?P (customerObjs (spawnStep ?g1) ! k)"
    using assms spawnStep_old_customer [of k ?g1] by simp_all
  have 2: "k < length (customerObjs (moveCustomers (spawnStep ?g1)))"
     "?Q (customerObjs (moveCustomers (spawnStep ?g1)) ! k)"
    using moveCustomers_keeps [where P = ?P, OF _ 1] by (simp_all add: move_engaged move_not_engaged)
  have 3: "k < length (customerObjs (updateTowers (moveCustomers (spawnStep ?g1))))"
     "?Q (customerObjs (updateTowers (moveCustomers (spawnStep ?g1))) ! k)"
    using updateTowers_keeps [where P = ?Q, OF _ _ 2] by (simp_all add: attack_isOnTrack)
  show ?thesis
    using 3 updateProductUpgrade_keeps [where P = ?Q, OF _ 3]
    by (simp add: Game_update_unfold Let_def tick_fields productEffect_flags)
qed

lemma reachable_gate:
  "\<forall>c \<in> set (customerObjs (foldl perform (Game_new cw ch rs) cmds)). \<not> engaged c \<longrightarrow> \<not> isOnTrack c"
proof (rule reachable_all)
  fix p w h r and c :: customer
  assume "\<not> engaged c \<longrightarrow> \<not> isOnTrack c"
  then show "\<not> engaged (fst (move p w h c r)) \<longrightarrow> \<not> isOnTrack (fst (move p w h c r))"
    by (simp add: move_engaged move_not_engaged)
qed (simp_all add: spawnAtMapEdge_flags attack_engaged productEffect_flags)

text \<open>
  C8. A movement step of a customer that is not engaged leaves \<open>isOnTrack\<close> as it was and
  leaves the customer not engaged. If the customer is off the track as well, the step is
  \<open>wanderOnEdge\<close>, which does not look at the path, and path position, target point and
  lap count stay. So a customer that is off the track and not engaged at the start of a
  tick is off the track at its end. And in every state the game can reach, a customer
  that is not engaged is off the track.
\<close>

theorem not_engaged_stays_off_track:
  "(\<not> engaged c \<longrightarrow>
      (isOnTrack (fst (move p w h c r)) \<longleftrightarrow> isOnTrack c) \<and> \<not> engaged (fst (move p w h c r)))
   \<and> (\<not> engaged c \<and> \<not> isOnTrack c \<longrightarrow>
        move p w h c r = wanderOnEdge w h c r
      \<and> pathPosition (fst (move p w h c r)) = pathPosition c
      \<and> targetPoint (fst (move p w h c r)) = targetPoint c
      \<and> lapCount (fst (move p w h c r)) = lapCount c)
   \<and> (k < length (customerObjs g) \<and> \<not> engaged (customerObjs g ! k)
        \<and> \<not> isOnTrack (customerObjs g ! k)
      \<longrightarrow> \<not> isOnTrack (customerObjs (Game_update g) ! k))
   \<and> (\<forall>c \<in> set (customerObjs (foldl perform (Game_new cw ch rs) cmds)).
         \<not> engaged c \<longrightarrow> \<not> isOnTrack c)"
  using tick_off_track [of k g] reachable_gate [of cw ch rs cmds]
  by (simp add: move_engaged move_not_engaged) (simp add: move_def wanderOnEdge_def Let_def)


theorem not_engaged_stays_off_track_witness:
  "\<not> engaged wanderingProspect \<and> \<not> isOnTrack wanderingProspect
   \<and> move examplePath 800 600 wanderingProspect (sconst (1 / 2))
       = wanderOnEdge 800 600 wanderingProspect (sconst (1 / 2))
   \<and> \<not> isOnTrack (fst (move examplePath 800 600 wanderingProspect (sconst (1 / 2))))
   \<and> position (fst (move examplePath 800 600 wanderingProspect (sconst (1 / 2))))
       = \<lparr>pos_x = 200, pos_y = 20\<rparr>
   \<and> 0 < length (customerObjs prospectGame)
   \<and> \<not> isOnTrack (customerObjs (Game_update prospectGame) ! 0)"
  using not_engaged_stays_off_track
          [of wanderingProspect examplePath 800 600 "sconst (1 / 2)" 0 prospectGame 800 600 "sconst 0" "[]"]
  by (simp add: wanderingProspect_def prospectGame_def Game_fields_def wanderOnEdge_def)

subsection \<open>Invariants of the tower objects\<close>

lemma addTargets_fields:
  "ttype (addTargets cs t cands) = ttype t" "level (addTargets cs t cands) = level t"
  "maxTargets (addTargets cs t cands) = maxTargets t"
  "maxValueManaged (addTargets cs t cands) = maxValueManaged t"
  "burnoutLevel (addTargets cs t cands) = burnoutLevel t"
  "attackSpeed (addTargets cs t cands) = attackSpeed t"
  "attackCooldown (addTargets cs t cands) = attackCooldown t"
  by (induction cs t cands rule: addTargets.induct; simp add: Let_def)+

lemma updateTargeting_fields:
  "ttype (updateTargeting cs t pop) = ttype t" "level (updateTargeting cs t pop) = level t"
  "maxTargets (updateTargeting cs t pop) = maxTargets t"
  "maxValueManaged (updateTargeting cs t pop) = maxValueManaged t"
  "attackSpeed (updateTargeting cs t pop) = attackSpeed t"
  "attackCooldown (updateTargeting cs t pop) = attackCooldown t"
  by (simp_all add: updateTargeting_def Let_def addTargets_fields)


lemma list_update_all:
  assumes "\<forall>x \<in> set xs. Q x" and "k < length xs \<Longrightarrow> Q v"
  shows "\<forall>x \<in> set (xs[k := v]). Q x"
proof (cases "k < length xs")
  case True
  with assms show ?thesis
    using set_update_subset_insert [of xs k v] by auto
next
  case False
  with assms show ?thesis by (simp add: list_update_beyond not_less)
qed

text \<open>
  A property of towers that a new tower has and that an upgrade and the targeting and
  attack of a tick keep, holds for all tower objects in every state the game can reach.
\<close>

lemma towersLoop_towers:
  assumes tick: "\<And>t cs pop r. Q t \<Longrightarrow> Q (fst (Tower_update (updateTargeting cs t pop) cs r))"
  shows "\<forall>t \<in> set ts. Q t \<Longrightarrow> \<forall>t \<in> set (fst (towersLoop trefs pop ts cs r)). Q t"
proof (induction trefs arbitrary: ts cs r)
  case Nil
  then show ?case by simp
next
  case (Cons k trefs)
  let ?u = "Tower_update (updateTargeting cs (ts ! k) pop) cs r"
  have "\<forall>t \<in> set (ts[k := fst ?u]). Q t"
    using Cons.prems by (intro list_update_all) (simp_all add: tick)
  from Cons.IH [OF this] show ?case by (simp add: split_def Let_def)
qed

lemma Game_update_towers:
  assumes tick: "\<And>t cs pop r. Q t \<Longrightarrow> Q (fst (Tower_update (updateTargeting cs t pop) cs r))"
    and inv: "\<forall>t \<in> set (towerObjs g). Q t"
  shows "\<forall>t \<in> set (towerObjs (Game_update g)). Q t"
proof -
  let ?g3 = "moveCustomers (spawnStep (g\<lparr>frameCount := frameCount g + 1\<rparr>))"
  have "towerObjs ?g3 = towerObjs g" by (simp add: tick_fields)
  with inv towersLoop_towers [where Q = Q, OF tick,
      of "towerObjs ?g3" "towers ?g3" "customers ?g3" "customerObjs ?g3" "rng ?g3"]
  have "\<forall>t \<in> set (towerObjs (updateTowers ?g3)). Q t"
    by (simp add: updateTowers_def split_def Let_def)
  then show ?thesis by (simp add: Game_update_unfold Let_def tick_fields)
qed

lemma perform_towers:
  assumes new: "\<And>i ty pos. Q (Tower_new i ty pos)"
    and up: "\<And>t. Q t \<Longrightarrow> Q (Tower_upgrade t)"
    and tick: "\<And>t cs pop r. Q t \<Longrightarrow> Q (fst (Tower_update (updateTargeting cs t pop) cs r))"
    and inv: "\<forall>t \<in> set (towerObjs g). Q t"
  shows "\<forall>t \<in> set (towerObjs (perform g cmd)). Q t"
proof (cases cmd)
  case (PlaceTower ty pos)
  with inv show ?thesis by (simp add: placeTower_def Let_def new)
next
  case (UpgradeTower k)
  have "\<forall>t \<in> set ((towerObjs g)[k := Tower_upgrade (towerObjs g ! k)]). Q t"
    using inv by (intro list_update_all) (simp_all add: up)
  with inv UpgradeTower show ?thesis by (simp add: upgradeTower_def Let_def)
next
  case (SellTower k)
  with inv show ?thesis by (simp add: sellTower_def Let_def)
next
  case StartProductUpgrade
  with inv show ?thesis by (simp add: startProductUpgrade_def Let_def)
next
  case Tick
  with Game_update_towers [where Q = Q, OF tick inv] show ?thesis by simp
qed

lemma spawnInitialProspects_towerObjs: "towerObjs (spawnInitialProspects n g) = towerObjs g"
  by (induction n arbitrary: g) (simp_all add: spawnProspect_def split_def Let_def)

lemma reachable_towers:
  assumes new: "\<And>i ty pos. Q (Tower_new i ty pos)"
    and up: "\<And>t. Q t \<Longrightarrow> Q (Tower_upgrade t)"
    and tick: "\<And>t cs pop r. Q t \<Longrightarrow> Q (fst (Tower_update (updateTargeting cs t pop) cs r))"
  shows "\<forall>t \<in> set (towerObjs (foldl perform (Game_new w h r) cmds)). Q t"
proof (rule foldl_perform_invariant [where I = "\<lambda>g. \<forall>t \<in> set (towerObjs g). Q t"])
  show "\<forall>t \<in> set (towerObjs (Game_new w h r)). Q t"
    by (simp add: Game_new_def spawnInitialProspects_towerObjs Game_fields_def)
next
  fix g :: game and cmd
  assume a: "\<forall>t \<in> set (towerObjs g). Q t"
  show "\<forall>t \<in> set (towerObjs (perform g cmd)). Q t"
    using perform_towers [where Q = Q and g = g and cmd = cmd] new up tick a by blast
qed

text \<open>
  Cooldown, burnout and attack speed are never negative: so for a new tower, and an
  upgrade, the targeting and the attack keep it so.
\<close>

lemma Math_round_nonneg: "0 \<le> v \<Longrightarrow> 0 \<le> Math_round v"
  by (simp add: Math_round_def)

lemma updateTargeting_burnout:
  "0 \<le> burnoutLevel t \<Longrightarrow> 0 \<le> burnoutLevel (updateTargeting cs t pop)"
  by (simp add: updateTargeting_def Let_def addTargets_fields)

lemma Tower_update_cooldown:
  assumes "towerTimingOK t"
  shows "towerTimingOK (fst (Tower_update t cs r))"
proof -
  from assms have "0 \<le> attackSpeed t * (1 + burnoutLevel t / 100)"
    by (simp add: towerTimingOK_def)
  then have "0 \<le> Math_round (attackSpeed t * (1 + burnoutLevel t / 100))"
    by (rule Math_round_nonneg)
  with assms show ?thesis
    by (simp add: towerTimingOK_def Tower_update_def Let_def split_def)
qed

lemma tower_tick_timing:
  "towerTimingOK t \<Longrightarrow> towerTimingOK (fst (Tower_update (updateTargeting cs t pop) cs r))"
  by (rule Tower_update_cooldown)
     (simp add: towerTimingOK_def updateTargeting_fields updateTargeting_burnout)

lemma reachable_timing:
  "\<forall>t \<in> set (towerObjs (foldl perform (Game_new w h r) cmds)). towerTimingOK t"
proof (rule reachable_towers)
  show "towerTimingOK (Tower_new i ty pos)" for i ty pos
    by (simp add: towerTimingOK_def Tower_new_def getBaseAttackSpeed_def)
  show "towerTimingOK t \<Longrightarrow> towerTimingOK (Tower_upgrade t)" for t
    by (simp add: towerTimingOK_def Tower_upgrade_def Let_def)
qed (rule tower_tick_timing)

subsection \<open>The cadence of a tower\<close>

text \<open>
  C2, as the code has it. \<open>Tower.update\<close> first returns if the tower has no current
  target: then nothing changes, and a nonzero cooldown is not decremented. With at least
  one target and a nonzero cooldown, the cooldown goes down by 1 and nothing else changes.
  With at least one target and cooldown 0, the tower attacks its targets and the cooldown
  becomes \<open>round (attackSpeed * (1 + burnoutLevel / 100))\<close>. Customers change and draws
  are taken only in the last case. The cooldown is never negative in a state the game
  can reach, which is the one assumption made on the tower.
\<close>

theorem tower_update_cadence:
  assumes "0 \<le> attackCooldown t"
  shows "(currentTargets t = [] \<longrightarrow> Tower_update t cs r = (t, cs, r))
       \<and> (currentTargets t \<noteq> [] \<and> attackCooldown t \<noteq> 0 \<longrightarrow>
            Tower_update t cs r = (t\<lparr>attackCooldown := attackCooldown t - 1\<rparr>, cs, r))
       \<and> (currentTargets t \<noteq> [] \<and> attackCooldown t = 0 \<longrightarrow>
            Tower_update t cs r =
              (t\<lparr>attackCooldown := Math_round (attackSpeed t * (1 + burnoutLevel t / 100))\<rparr>,
               attackTargets t cs r))
       \<and> (fst (snd (Tower_update t cs r)) \<noteq> cs \<or> snd (snd (Tower_update t cs r)) \<noteq> r
            \<longrightarrow> currentTargets t \<noteq> [] \<and> attackCooldown t = 0)
       \<and> (\<forall>t' \<in> set (towerObjs (foldl perform (Game_new w h rs) cmds)). 0 \<le> attackCooldown t')"
proof -
  have "\<forall>t' \<in> set (towerObjs (foldl perform (Game_new w h rs) cmds)). 0 \<le> attackCooldown t'"
    using reachable_timing [of w h rs cmds] unfolding towerTimingOK_def by blast
  with assms show ?thesis
    by (auto simp add: Tower_update_def Let_def split_def)
qed

theorem tower_update_cadence_witness:
  "0 \<le> attackCooldown busyTower
   \<and> Tower_update busyTower [wanderingProspect] (sconst (1 / 2))
       = (busyTower\<lparr>attackCooldown := 60\<rparr>, [wanderingProspect\<lparr>engaged := True\<rparr>], sconst (1 / 2))
   \<and> Tower_update (busyTower\<lparr>attackCooldown := 3\<rparr>) [wanderingProspect] (sconst (1 / 2))
       = (busyTower\<lparr>attackCooldown := 2\<rparr>, [wanderingProspect], sconst (1 / 2))
   \<and> Tower_update idleTower [] (sconst (1 / 2)) = (idleTower, [], sconst (1 / 2))"
  using tower_update_cadence [of busyTower "[wanderingProspect]" "sconst (1 / 2)"]
        tower_update_cadence [of "busyTower\<lparr>attackCooldown := 3\<rparr>" "[wanderingProspect]" "sconst (1 / 2)"]
        tower_update_cadence [of idleTower "[]" "sconst (1 / 2)"]
  by (simp add: busyTower_def idleTower_def Tower_new_def getBaseAttackSpeed_def
        attackTargets_def attackSales_def wanderingProspect_def Let_def Math_round_def)

text \<open>
  The claim as stated fails for a tower without targets: its cooldown of 5 is still 5
  after a tick.
\<close>

lemma sqrt_78400: "sqrt 78400 = 280"
  by (rule real_sqrt_unique) simp_all

theorem cooldown_frozen_without_targets:
  "attackCooldown (towerObjs idleTowerGame ! 0) = 5
   \<and> currentTargets (towerObjs idleTowerGame ! 0) = []
   \<and> attackCooldown (towerObjs (Game_update idleTowerGame) ! 0) = 5
   \<and> attackCooldown (towerObjs (Game_update idleTowerGame) ! 0)
       \<noteq> attackCooldown (towerObjs idleTowerGame ! 0) - 1"
  by (simp add: Game_update_unfold tick_fields Let_def idleTowerGame_def Game_fields_def
        spawnStep_def prospectSpawnRate_def moveCustomers_def move_def wanderOnEdge_def
        wanderingProspect_def updateTowers_def
        idleTower_def Tower_new_def updateTargeting_def filterTargetsByStrategy_def
        getPriorityTargets_def isInRange_def sqrt_78400 getBaseRange_def
        Tower_update_def getBaseMaxTargets_def)

subsection \<open>The capital\<close>

lemma getCost_pos: "0 < getCost ty"
  by (simp add: getCost_def)

lemma getUpgradeCostSum_nonneg: "0 \<le> getUpgradeCostSum t"
  unfolding getUpgradeCostSum_def
  by (rule sum_list_nonneg) (auto simp add: getCost_def intro!: Math_round_nonneg)

lemma getSellValue_nonneg: "0 \<le> getSellValue t"
  using getUpgradeCostSum_nonneg [of t] getCost_pos [of "ttype t"]
  by (simp add: getSellValue_def Let_def Math_round_nonneg)

lemma placeTower_capital:
  "capital (snd (placeTower g ty pos)) =
     (if capital g \<ge> getCost ty then capital g - getCost ty else capital g)"
  by (simp add: placeTower_def canAfford_def Let_def)

lemma upgradeTower_capital:
  "capital (snd (upgradeTower g k)) =
     (if capital g \<ge> real_of_int (getUpgradeCost (towerObjs g ! k))
      then capital g - real_of_int (getUpgradeCost (towerObjs g ! k)) else capital g)"
  by (simp add: upgradeTower_def canAfford_def Let_def)

lemma startProductUpgrade_capital:
  "capital (snd (startProductUpgrade g)) =
     (if \<not> productUpgradeActive g \<and> capital g \<ge> max 50000 (arr (currentMetrics (metrics g)) * 0.2)
      then capital g - max 50000 (arr (currentMetrics (metrics g)) * 0.2) else capital g)"
  by (simp add: startProductUpgrade_def canAfford_def Let_def)

lemma sellTower_capital:
  "capital (snd (sellTower g k)) =
     (if k \<in> set (towers g) then capital g + real_of_int (getSellValue (towerObjs g ! k))
      else capital g)"
  by (simp add: sellTower_def Let_def)

lemma perform_capital_nonneg: "0 \<le> capital g \<Longrightarrow> 0 \<le> capital (perform g cmd)"
  using getSellValue_nonneg [of "towerObjs g ! k" for k]
  by (cases cmd)
     (simp_all add: placeTower_capital upgradeTower_capital startProductUpgrade_capital
        sellTower_capital Game_update_capital)

lemma Game_new_capital: "capital (Game_new w h r) = 500000"
  by (simp add: Game_new_def spawnInitialProspects_capital Game_fields_def)

lemma reachable_capital_nonneg: "0 \<le> capital (foldl perform (Game_new w h r) cmds)"
  by (rule foldl_perform_invariant [where I = "\<lambda>g. 0 \<le> capital g"])
     (simp_all add: Game_new_capital perform_capital_nonneg)

text \<open>
  C9. The capital starts at 500000 and is never negative in a state the game can reach:
  every operation and every tick keeps it non-negative. Placing, upgrading and starting
  a product upgrade subtract a cost only when the capital is at least the cost; selling
  adds the sell value, which is not negative; a tick does not change the capital.
\<close>

theorem capital_never_negative:
  "capital (Game_new w h r) = 500000
   \<and> 0 \<le> capital (foldl perform (Game_new w h r) cmds)
   \<and> (0 \<le> capital g \<longrightarrow> 0 \<le> capital (perform g cmd))
   \<and> (capital (snd (placeTower g ty pos)) \<noteq> capital g \<longrightarrow>
        getCost ty \<le> capital g \<and> capital (snd (placeTower g ty pos)) = capital g - getCost ty)
   \<and> (capital (snd (upgradeTower g k)) \<noteq> capital g \<longrightarrow>
        real_of_int (getUpgradeCost (towerObjs g ! k)) \<le> capital g
        \<and> capital (snd (upgradeTower g k)) = capital g - real_of_int (getUpgradeCost (towerObjs g ! k)))
   \<and> (capital (snd (startProductUpgrade g)) \<noteq> capital g \<longrightarrow>
        productUpgradeCost (snd (startProductUpgrade g)) \<le> capital g
        \<and> capital (snd (startProductUpgrade g))
            = capital g - productUpgradeCost (snd (startProductUpgrade g)))
   \<and> capital g \<le> capital (snd (sellTower g k))
   \<and> capital (Game_update g) = capital g"
  using getSellValue_nonneg [of "towerObjs g ! k"] perform_capital_nonneg [of g cmd]
  by (simp add: Game_new_capital reachable_capital_nonneg placeTower_capital upgradeTower_capital
        sellTower_capital Game_update_capital)
     (simp add: startProductUpgrade_def canAfford_def Let_def)

lemma idleTowerGame_capital:
  "capital idleTowerGame = 425000"
  "capital (perform idleTowerGame (PlaceTower ''CSM'' \<lparr>pos_x = 300, pos_y = 100\<rparr>)) = 365000"
  "capital (perform idleTowerGame (SellTower 0)) = 477500"
  "capital (perform idleTowerGame StartProductUpgrade) = 375000"
  "capital (perform idleTowerGame Tick) = 425000"
  by (simp_all add: idleTowerGame_def Game_fields_def placeTower_capital getCost_def
        sellTower_capital idleTower_def getSellValue_def getUpgradeCostSum_def Tower_new_def
        startProductUpgrade_capital MetricsCalculator_new_def Game_update_capital Math_round_def)

theorem capital_never_negative_witness:
  "0 \<le> capital idleTowerGame
   \<and> 0 \<le> capital (perform idleTowerGame (SellTower 0))
   \<and> capital (perform idleTowerGame (PlaceTower ''CSM'' \<lparr>pos_x = 300, pos_y = 100\<rparr>)) = 365000
   \<and> capital (perform idleTowerGame (SellTower 0)) = 477500
   \<and> capital (perform idleTowerGame StartProductUpgrade) = 375000
   \<and> capital (perform idleTowerGame Tick) = 425000"
proof -
  have a: "0 \<le> capital idleTowerGame"
    by (simp add: idleTowerGame_capital)
  from capital_never_negative [of 800 600 "sconst 0" "[]" idleTowerGame "SellTower 0"] a
  have "0 \<le> capital (perform idleTowerGame (SellTower 0))"
    by blast
  with a show ?thesis
    by (simp add: idleTowerGame_capital del: perform.simps)
qed


subsection \<open>Operations that fail\<close>

lemma failed_placeTower: "fst (placeTower g ty pos) = None \<Longrightarrow> snd (placeTower g ty pos) = g"
  by (simp add: placeTower_def Let_def split: if_splits)

lemma failed_upgradeTower: "\<not> fst (upgradeTower g k) \<Longrightarrow> snd (upgradeTower g k) = g"
  by (simp add: upgradeTower_def Let_def split: if_splits)

lemma failed_sellTower: "\<not> fst (sellTower g k) \<Longrightarrow> snd (sellTower g k) = g"
  by (simp add: sellTower_def Let_def split: if_splits)

lemma failed_startProductUpgrade:
  "\<not> fst (startProductUpgrade g) \<Longrightarrow>
     snd (startProductUpgrade g) =
       (if productUpgradeActive g then g
        else g\<lparr>productUpgradeCost := max 50000 (arr (currentMetrics (metrics g)) * 0.2)\<rparr>)"
  by (simp add: startProductUpgrade_def Let_def split: if_splits)

lemma spawnInitialProspects_product:
  "productUpgradeActive (spawnInitialProspects n g) = productUpgradeActive g"
  "productUpgradeCost (spawnInitialProspects n g) = productUpgradeCost g"
  "metrics (spawnInitialProspects n g) = metrics g"
  by (induction n arbitrary: g) (simp_all add: spawnProspect_def split_def Let_def)

lemma Game_new_product:
  "\<not> productUpgradeActive (Game_new w h r)" "productUpgradeCost (Game_new w h r) = 0"
  "arr (currentMetrics (metrics (Game_new w h r))) = 0"
  by (simp_all add: Game_new_def spawnInitialProspects_product Game_fields_def
        MetricsCalculator_new_def)

lemma placeTower_product:
  "productUpgradeActive (snd (placeTower g ty pos)) = productUpgradeActive g"
  "productUpgradeCost (snd (placeTower g ty pos)) = productUpgradeCost g"
  "metrics (snd (placeTower g ty pos)) = metrics g"
  by (simp_all add: placeTower_def Let_def)

lemma shortOfCashGame_facts:
  "capital shortOfCashGame = 20000" "\<not> productUpgradeActive shortOfCashGame"
  "productUpgradeCost shortOfCashGame = 0" "arr (currentMetrics (metrics shortOfCashGame)) = 0"
  by (simp_all add: shortOfCashGame_def placeTower_capital placeTower_product Game_new_capital
        Game_new_product getCost_def)

text \<open>
  C6. A failed \<open>placeTower\<close>, \<open>upgradeTower\<close> or \<open>sellTower\<close> leaves the state as it
  was (the three lemmas above). \<open>startProductUpgrade\<close> does not: it stores the new
  \<open>productUpgradeCost\<close> before it tests whether the capital covers it. With 20000 left
  and no upgrade running, the call fails and the stored cost has changed from 0 to 50000.
\<close>

theorem failed_product_upgrade_changes_cost:
  "capital shortOfCashGame = 20000
   \<and> \<not> productUpgradeActive shortOfCashGame
   \<and> productUpgradeCost shortOfCashGame = 0
   \<and> \<not> fst (startProductUpgrade shortOfCashGame)
   \<and> productUpgradeCost (snd (startProductUpgrade shortOfCashGame)) = 50000
   \<and> snd (startProductUpgrade shortOfCashGame) \<noteq> shortOfCashGame"
proof -
  have f: "\<not> fst (startProductUpgrade shortOfCashGame)"
    by (simp add: startProductUpgrade_def canAfford_def Let_def shortOfCashGame_facts)
  have c: "productUpgradeCost (snd (startProductUpgrade shortOfCashGame)) = 50000"
    by (simp add: failed_startProductUpgrade [OF f] shortOfCashGame_facts)
  have "productUpgradeCost (snd (startProductUpgrade shortOfCashGame))
          \<noteq> productUpgradeCost shortOfCashGame"
    by (simp add: c shortOfCashGame_facts)
  then have "snd (startProductUpgrade shortOfCashGame) \<noteq> shortOfCashGame"
    by auto
  with f c show ?thesis by (simp add: shortOfCashGame_facts)
qed


subsection \<open>The caps of a tower\<close>

lemma foldl_plus_sum_list:
  "foldl (\<lambda>sum c. sum + f c) a xs = a + (\<Sum>c\<leftarrow>xs. f c)" for a :: real
  by (induction xs arbitrary: a) simp_all



























subsection \<open>Retention metrics\<close>

lemma snapshotSpend_total: "snapshotSpend snap = totalSpend snap"
  by (simp add: snapshotSpend_def totalSpend_def foldl_plus_sum_list)

lemma activeARR_total:
  "foldl (\<lambda>sum c. sum + spend c) 0 cs = totalSpend (map (\<lambda>c. (cid c, spend c)) cs)"
  by (simp add: totalSpend_def foldl_plus_sum_list comp_def)

lemma totalSpend_nonneg: "\<forall>e \<in> set snap. 0 < snd e \<Longrightarrow> 0 \<le> totalSpend snap"
  unfolding totalSpend_def by (rule sum_list_nonneg) auto

lemma totalSpend_zero: "\<forall>e \<in> set snap. 0 < snd e \<Longrightarrow> totalSpend snap = 0 \<Longrightarrow> snap = []"
proof (cases snap)
  case Nil
  then show ?thesis by simp
next
  case (Cons e rest)
  assume pos: "\<forall>e \<in> set snap. 0 < snd e" and z: "totalSpend snap = 0"
  from pos Cons have "0 \<le> totalSpend rest" "0 < snd e"
    by (simp_all add: totalSpend_nonneg)
  with z Cons show ?thesis by (simp add: totalSpend_def)
qed

text \<open>The retained ids of the code are those of the specification.\<close>

lemma retained_ids_set:
  "set (filter (\<lambda>i. list_ex (\<lambda>cc. fst cc = i) currSnap) (map fst prevSnap)) = retainedIds prevSnap currSnap"
  by (force simp add: retainedIds_def list_ex_iff)

lemma retention_unfold:
  "retention m =
     (let h = history_customers m; prevSnap = h ! (length h - 2); currSnap = h ! (length h - 1) in
      if length h \<ge> 2 \<and> totalSpend prevSnap > 0
      then m\<lparr>currentMetrics := (currentMetrics m)
                \<lparr>grr := specGRR prevSnap currSnap, nrr := specNRR prevSnap currSnap\<rparr>\<rparr>
      else m)"
  unfolding retention_def retained_ids_set snapshotSpend_total specGRR_def specNRR_def Let_def
  by (simp add: min.commute)

lemma retention_history:
  "history_customers (retention m) = history_customers m"
  "history_arr (retention m) = history_arr m"
  by (simp_all add: retention_unfold Let_def)

lemma countsAndCosts_keeps:
  "history_customers (countsAndCosts m a s) = history_customers m"
  "history_arr (countsAndCosts m a s) = history_arr m"
  "grr (currentMetrics (countsAndCosts m a s)) = grr (currentMetrics m)"
  "nrr (currentMetrics (countsAndCosts m a s)) = nrr (currentMetrics m)"
  by (simp_all add: countsAndCosts_def Let_def)

lemma recordHistory_retention:
  "grr (currentMetrics (recordHistory m a)) = grr (currentMetrics m)"
  "nrr (currentMetrics (recordHistory m a)) = nrr (currentMetrics m)"
  by (simp_all add: recordHistory_def Let_def)


lemma pushCapped_length: "length ha = length hc \<Longrightarrow> length (pushCapped ha a) = length (pushCapped hc c)"
  by (simp add: pushCapped_def)

lemma pushCapped_two: "h \<noteq> [] \<Longrightarrow> 2 \<le> length (pushCapped h x)"
  by (cases h) (simp_all add: pushCapped_def)

lemma pushCapped_last: "h \<noteq> [] \<Longrightarrow> last (pushCapped h x) = x"
  by (cases h) (simp_all add: pushCapped_def last_tl)

lemma pushCapped_before_last: "h \<noteq> [] \<Longrightarrow> last (butlast (pushCapped h x)) = last h"
proof (cases h)
  case Nil
  assume "h \<noteq> []" with Nil show ?thesis by simp
next
  case (Cons y ys)
  show ?thesis
  proof (cases "length (h @ [x]) > 12")
    case True
    with Cons have "ys \<noteq> []" by auto
    with Cons True show ?thesis by (simp add: pushCapped_def butlast_append)
  next
    case False
    then show ?thesis by (simp add: pushCapped_def)
  qed
qed

lemma pushCapped_set: "set (pushCapped h x) \<subseteq> insert x (set h)"
  by (cases h) (auto simp add: pushCapped_def)

lemma last_two:
  "2 \<le> length h \<Longrightarrow> h ! (length h - 2) = last (butlast h)"
  "2 \<le> length h \<Longrightarrow> h ! (length h - 1) = last h"
proof -
  assume l: "2 \<le> length h"
  then have "butlast h \<noteq> []" "h \<noteq> []" by (cases h; auto)+
  then show "h ! (length h - 2) = last (butlast h)"
    using l by (simp add: last_conv_nth nth_butlast numeral_2_eq_2)
  from \<open>h \<noteq> []\<close> show "h ! (length h - 1) = last h"
    by (simp add: last_conv_nth)
qed

lemma recordHistory_history:
  "history_arr (recordHistory m a) =
     (if history_arr m = [] then [totalSpend (map (\<lambda>c. (cid c, spend c)) a)]
      else if last (history_arr m) \<noteq> totalSpend (map (\<lambda>c. (cid c, spend c)) a)
        then pushCapped (history_arr m) (totalSpend (map (\<lambda>c. (cid c, spend c)) a))
        else history_arr m)"
  "length (history_arr m) = length (history_customers m) \<Longrightarrow>
   history_customers (recordHistory m a) =
     (if history_arr m = [] then [map (\<lambda>c. (cid c, spend c)) a]
      else if last (history_arr m) \<noteq> totalSpend (map (\<lambda>c. (cid c, spend c)) a)
        then pushCapped (history_customers m) (map (\<lambda>c. (cid c, spend c)) a)
        else history_customers m)"
  by (auto simp add: recordHistory_def Let_def pushCapped_def activeARR_total)


lemma historyInvariant_alt:
  "historyInvariant m \<longleftrightarrow>
     length (history_arr m) = length (history_customers m)
     \<and> (\<forall>snap \<in> set (history_customers m). \<forall>e \<in> set snap. 0 < snd e)
     \<and> (history_customers m \<noteq> [] \<longrightarrow>
          last (history_arr m) = totalSpend (last (history_customers m)))
     \<and> (2 \<le> length (history_customers m) \<longrightarrow>
          totalSpend (last (butlast (history_customers m)))
            \<noteq> totalSpend (last (history_customers m)))"
  using last_two [of "history_customers m"]
  by (auto simp add: historyInvariant_def Let_def)

lemma staleRetentionIsZero_alt:
  "staleRetentionIsZero m \<longleftrightarrow>
     (length (history_customers m) < 2 \<or> totalSpend (last (butlast (history_customers m))) = 0
        \<longrightarrow> grr (currentMetrics m) = 0 \<and> nrr (currentMetrics m) = 0)"
  using last_two [of "history_customers m"]
  by (cases "2 \<le> length (history_customers m)") (auto simp add: staleRetentionIsZero_def Let_def)

lemma retentionAsSpecified_alt:
  "2 \<le> length (history_customers m) \<Longrightarrow>
   retentionAsSpecified m \<longleftrightarrow>
     (0 < totalSpend (last (butlast (history_customers m))) \<longrightarrow>
        grr (currentMetrics m) = specGRR (last (butlast (history_customers m))) (last (history_customers m))
        \<and> nrr (currentMetrics m) = specNRR (last (butlast (history_customers m))) (last (history_customers m)))
     \<and> (totalSpend (last (butlast (history_customers m))) = 0 \<longrightarrow>
        grr (currentMetrics m) = 0 \<and> nrr (currentMetrics m) = 0)"
  using last_two [of "history_customers m"]
  by (simp add: retentionAsSpecified_def Let_def)

lemma spec_retention_of_empty:
  "specGRR prevSnap [] = 0" "specNRR prevSnap [] = 0"
  by (simp_all add: specGRR_def specNRR_def retainedIds_def totalSpend_def)

lemma recordHistory_invariant:
  assumes HI: "historyInvariant m" and SZ: "staleRetentionIsZero m" and FR: "freshRetention m"
    and pos: "\<forall>c \<in> set a. 0 < spend c"
  shows "historyInvariant (recordHistory m a) \<and> staleRetentionIsZero (recordHistory m a)"
proof -
  let ?snap = "map (\<lambda>c. (cid c, spend c)) a"
  let ?A = "totalSpend ?snap"
  let ?ha = "history_arr m" and ?hc = "history_customers m"
  from pos have spos: "\<forall>e \<in> set ?snap. 0 < snd e" by auto
  from HI have len: "length ?ha = length ?hc"
    and hpos: "\<forall>snap \<in> set ?hc. \<forall>e \<in> set snap. 0 < snd e"
    and lst: "?hc \<noteq> [] \<longrightarrow> last ?ha = totalSpend (last ?hc)"
    and dif: "2 \<le> length ?hc \<longrightarrow> totalSpend (last (butlast ?hc)) \<noteq> totalSpend (last ?hc)"
    by (simp_all add: historyInvariant_alt)
  note rh = recordHistory_history(1) [of m a] recordHistory_history(2) [OF len, of a]
  note gn = recordHistory_retention [of m a]
  consider (first) "?ha = []" | (push) "?ha \<noteq> []" "last ?ha \<noteq> ?A" | (same) "?ha \<noteq> []" "last ?ha = ?A"
    by blast
  then show ?thesis
  proof cases
    case first
    with len have "?hc = []" by simp
    with first SZ spos show ?thesis
      by (simp add: historyInvariant_alt staleRetentionIsZero_alt rh gn)
  next
    case push
    with len have ne: "?hc \<noteq> []" by auto
    have h1: "history_arr (recordHistory m a) = pushCapped ?ha ?A"
         "history_customers (recordHistory m a) = pushCapped ?hc ?snap"
      using push by (simp_all add: rh)
    have p1: "\<forall>snap \<in> set (pushCapped ?hc ?snap). \<forall>e \<in> set snap. 0 < snd e"
    proof
      fix snap assume "snap \<in> set (pushCapped ?hc ?snap)"
      with pushCapped_set [of ?hc ?snap] have "snap = ?snap \<or> snap \<in> set ?hc" by blast
      with hpos spos show "\<forall>e \<in> set snap. 0 < snd e" by blast
    qed
    have HI1: "historyInvariant (recordHistory m a)"
      unfolding historyInvariant_alt h1
      using push ne lst len p1
      by (simp add: pushCapped_length [OF len] pushCapped_last pushCapped_before_last)
    have z: "grr (currentMetrics m) = 0 \<and> nrr (currentMetrics m) = 0"
      if t0: "totalSpend (last ?hc) = 0"
    proof (cases "2 \<le> length ?hc")
      case False
      with SZ show ?thesis by (simp add: staleRetentionIsZero_alt)
    next
      case True
      from ne hpos last_in_set [of ?hc] have lpos: "\<forall>e \<in> set (last ?hc). 0 < snd e" by blast
      from lpos t0 have e: "last ?hc = []" by (rule totalSpend_zero)
      from True have "length (butlast ?hc) \<noteq> 0" by simp
      then have "butlast ?hc \<noteq> []" by (simp only: length_0_conv not_False_eq_True)
      then have "last (butlast ?hc) \<in> set ?hc"
        using last_in_set [of "butlast ?hc"] in_set_butlastD [of _ ?hc] by blast
      with hpos have "0 \<le> totalSpend (last (butlast ?hc))"
        by (simp add: totalSpend_nonneg)
      with dif True t0 have "0 < totalSpend (last (butlast ?hc))" by simp
      with FR True e show ?thesis
        by (simp add: freshRetention_def Let_def spec_retention_of_empty)
    qed
    have "staleRetentionIsZero (recordHistory m a)"
      unfolding staleRetentionIsZero_alt h1 gn
      using z pushCapped_two [OF ne, of ?snap] by (simp add: pushCapped_before_last [OF ne])
    with HI1 show ?thesis by simp
  next
    case same
    with HI SZ show ?thesis
      by (simp add: historyInvariant_alt staleRetentionIsZero_alt rh gn)
  qed
qed

lemma retention_invariant:
  assumes "historyInvariant m" and "staleRetentionIsZero m"
  shows "historyInvariant (retention m) \<and> staleRetentionIsZero (retention m)
         \<and> freshRetention (retention m)"
proof -
  have hi: "historyInvariant (retention m)"
    using assms(1) by (simp add: historyInvariant_alt retention_history)
  show ?thesis
  proof (cases "2 \<le> length (history_customers m)
                \<and> 0 < totalSpend (history_customers m ! (length (history_customers m) - 2))")
    case True
    with last_two [of "history_customers m"] hi show ?thesis
      by (simp add: staleRetentionIsZero_alt freshRetention_def retention_unfold Let_def)
  next
    case False
    then have "retention m = m" by (auto simp add: retention_unfold Let_def)
    with False assms last_two [of "history_customers m"] show ?thesis
      by (auto simp add: freshRetention_def Let_def)
  qed
qed

lemma countsAndCosts_invariant:
  "historyInvariant (countsAndCosts m a s) = historyInvariant m"
  "staleRetentionIsZero (countsAndCosts m a s) = staleRetentionIsZero m"
  "freshRetention (countsAndCosts m a s) = freshRetention m"
  by (simp_all add: historyInvariant_alt staleRetentionIsZero_alt freshRetention_def
        countsAndCosts_keeps Let_def)

lemma calculateMetrics_invariant:
  assumes "historyInvariant m \<and> staleRetentionIsZero m \<and> freshRetention m"
    and "\<forall>c \<in> set cs. 0 < spend c"
  shows "historyInvariant (calculateMetrics m cs sp)
         \<and> staleRetentionIsZero (calculateMetrics m cs sp)
         \<and> freshRetention (calculateMetrics m cs sp)"
proof -
  from assms(2) have "\<forall>c \<in> set (filter isActiveOrGold cs). 0 < spend c" by simp
  with assms(1) recordHistory_invariant [of m "filter isActiveOrGold cs"]
  have "historyInvariant (recordHistory m (filter isActiveOrGold cs))
        \<and> staleRetentionIsZero (recordHistory m (filter isActiveOrGold cs))"
    by blast
  with retention_invariant [of "recordHistory m (filter isActiveOrGold cs)"]
  show ?thesis
    by (simp add: calculateMetrics_def Let_def countsAndCosts_invariant)
qed

lemma calculateMetricsRun_invariant:
  assumes "\<forall>call \<in> set calls. \<forall>c \<in> set (fst call). 0 < spend c"
    and "historyInvariant m \<and> staleRetentionIsZero m \<and> freshRetention m"
  shows "historyInvariant (calculateMetricsRun m calls)
         \<and> staleRetentionIsZero (calculateMetricsRun m calls)
         \<and> freshRetention (calculateMetricsRun m calls)"
  using assms
proof (induction calls arbitrary: m)
  case Nil
  then show ?case by simp
next
  case (Cons call calls)
  from Cons.prems calculateMetrics_invariant [of m "fst call" "snd call"]
  have "historyInvariant (calculateMetrics m (fst call) (snd call))
         \<and> staleRetentionIsZero (calculateMetrics m (fst call) (snd call))
         \<and> freshRetention (calculateMetrics m (fst call) (snd call))"
    by simp
  with Cons.IH [of "calculateMetrics m (fst call) (snd call)"] Cons.prems(1)
  show ?case by simp
qed

lemma MetricsCalculator_new_invariant:
  "historyInvariant MetricsCalculator_new \<and> staleRetentionIsZero MetricsCalculator_new
   \<and> freshRetention MetricsCalculator_new"
  by (simp add: historyInvariant_alt staleRetentionIsZero_alt freshRetention_def
        MetricsCalculator_new_def)

text \<open>
  C4. Take any series of calls of \<open>calculateMetrics\<close> on a new calculator, with
  customers of positive spend. If the history then holds at least two snapshots, with
  \<open>prev\<close> and \<open>curr\<close> the last two: when the spend of \<open>prev\<close> is positive, \<open>grr\<close> is
  \<open>min 1 (spend of prev over the retained ids / spend of prev)\<close> and \<open>nrr\<close> is
  \<open>spend of curr over the retained ids / spend of prev\<close>; when the spend of \<open>prev\<close> is 0,
  both are 0. The first half holds after a call on any calculator state.
\<close>

theorem retention_metrics:
  "((\<forall>call \<in> set calls. \<forall>c \<in> set (fst call). 0 < spend c)
      \<and> 2 \<le> length (history_customers (calculateMetricsRun MetricsCalculator_new calls))
    \<longrightarrow> retentionAsSpecified (calculateMetricsRun MetricsCalculator_new calls))
   \<and> (2 \<le> length (history_customers (calculateMetrics m cs sp))
        \<and> 0 < totalSpend (history_customers (calculateMetrics m cs sp)
                  ! (length (history_customers (calculateMetrics m cs sp)) - 2))
      \<longrightarrow> retentionAsSpecified (calculateMetrics m cs sp))"
proof -
  have 1: "retentionAsSpecified (calculateMetricsRun MetricsCalculator_new calls)"
    if "\<forall>call \<in> set calls. \<forall>c \<in> set (fst call). 0 < spend c"
      and "2 \<le> length (history_customers (calculateMetricsRun MetricsCalculator_new calls))"
    using calculateMetricsRun_invariant [OF that(1) MetricsCalculator_new_invariant] that(2)
    by (auto simp add: retentionAsSpecified_alt staleRetentionIsZero_alt freshRetention_def Let_def)
  have 2: "retentionAsSpecified (calculateMetrics m cs sp)"
    if "2 \<le> length (history_customers (calculateMetrics m cs sp))"
      and "0 < totalSpend (history_customers (calculateMetrics m cs sp)
                  ! (length (history_customers (calculateMetrics m cs sp)) - 2))"
    using that
    by (simp add: retentionAsSpecified_def calculateMetrics_def Let_def countsAndCosts_keeps
          retention_history) (simp add: retention_unfold Let_def)
  from 1 2 show ?thesis by blast
qed


lemmas metrics_eval =
  calculateMetrics_def recordHistory_def retention_def countsAndCosts_def isActiveOrGold_def
  snapshotSpend_def MetricsCalculator_new_def accountA_def accountB_def renewingCustomer_def
  Let_def

lemma churnCalls_run:
  "history_customers (calculateMetricsRun MetricsCalculator_new churnCalls)
     = [[(''customer_0'', 100), (''customer_1'', 300)], [(''customer_0'', 150)]]"
  "grr (currentMetrics (calculateMetricsRun MetricsCalculator_new churnCalls)) = 1 / 4"
  "nrr (currentMetrics (calculateMetricsRun MetricsCalculator_new churnCalls)) = 3 / 8"
  by (simp_all add: churnCalls_def metrics_eval)

lemma firstSaleCalls_run:
  "history_customers (calculateMetricsRun MetricsCalculator_new firstSaleCalls)
     = [[], [(''customer_1'', 300)]]"
  "grr (currentMetrics (calculateMetricsRun MetricsCalculator_new firstSaleCalls)) = 0"
  "nrr (currentMetrics (calculateMetricsRun MetricsCalculator_new firstSaleCalls)) = 0"
  by (simp_all add: firstSaleCalls_def metrics_eval)

theorem retention_metrics_witness:
  "retentionAsSpecified (calculateMetricsRun MetricsCalculator_new churnCalls)
   \<and> history_customers (calculateMetricsRun MetricsCalculator_new churnCalls)
       = [[(''customer_0'', 100), (''customer_1'', 300)], [(''customer_0'', 150)]]
   \<and> grr (currentMetrics (calculateMetricsRun MetricsCalculator_new churnCalls)) = 1 / 4
   \<and> nrr (currentMetrics (calculateMetricsRun MetricsCalculator_new churnCalls)) = 3 / 8
   \<and> retentionAsSpecified (calculateMetricsRun MetricsCalculator_new firstSaleCalls)
   \<and> history_customers (calculateMetricsRun MetricsCalculator_new firstSaleCalls)
       = [[], [(''customer_1'', 300)]]
   \<and> grr (currentMetrics (calculateMetricsRun MetricsCalculator_new firstSaleCalls)) = 0
   \<and> nrr (currentMetrics (calculateMetricsRun MetricsCalculator_new firstSaleCalls)) = 0"
proof -
  have a: "\<forall>call \<in> set churnCalls. \<forall>c \<in> set (fst call). 0 < spend c"
    by (simp add: churnCalls_def accountA_def accountB_def)
  have b: "\<forall>call \<in> set firstSaleCalls. \<forall>c \<in> set (fst call). 0 < spend c"
    by (simp add: firstSaleCalls_def accountB_def)
  from retention_metrics [of churnCalls] a
  have 1: "retentionAsSpecified (calculateMetricsRun MetricsCalculator_new churnCalls)"
    by (simp add: churnCalls_run)
  from retention_metrics [of firstSaleCalls] b
  have 2: "retentionAsSpecified (calculateMetricsRun MetricsCalculator_new firstSaleCalls)"
    by (simp add: firstSaleCalls_run)
  from 1 2 show ?thesis by (simp add: churnCalls_run firstSaleCalls_run)
qed


end
